theory Spec2Isabelle
  imports Complex_Main "HOL-Library.Sublist"
begin

section \<open>The resilient API client of PackMoveGo (service.apiSW.ts)\<close>

text \<open>
  The client is a process-wide singleton whose methods mutate its private fields and a few
  module-level variables. Each method is embedded as a function that takes the state and
  returns the updated state together with its result. \<^verbatim>\<open>Date.now()\<close> is an input
  (milliseconds, an \<^typ>\<open>int\<close>); a thrown error or a rejected promise is a value.
\<close>

subsection \<open>JavaScript values and errors\<close>

datatype jsval =
    JNull
  | JUndefined
  | JBool bool
  | JNum int
  | JStr string
  | JArr "jsval list"
  | JObj "(string \<times> jsval) list"

text \<open>Truthiness, as \<^verbatim>\<open>if (x)\<close>, \<^verbatim>\<open>x && y\<close> and \<^verbatim>\<open>x || y\<close> test it.\<close>

fun truthy :: "jsval \<Rightarrow> bool" where
  "truthy JNull = False"
| "truthy JUndefined = False"
| "truthy (JBool b) = b"
| "truthy (JNum n) = (n \<noteq> 0)"
| "truthy (JStr s) = (s \<noteq> [])"
| "truthy (JArr _) = True"
| "truthy (JObj _) = True"

text \<open>Property read \<^verbatim>\<open>v.k\<close> on a value already known to be truthy.\<close>

fun getProp :: "jsval \<Rightarrow> string \<Rightarrow> jsval" where
  "getProp (JObj kvs) k = (case map_of kvs k of Some v \<Rightarrow> v | None \<Rightarrow> JUndefined)"
| "getProp _ k = JUndefined"

datatype errclass = NotAnError | PlainError | TypeError | SyntaxError | ReferenceError

text \<open>
  An \<^verbatim>\<open>Error\<close> with the ad-hoc properties the client attaches to it or reads from
  it (\<^verbatim>\<open>(error as any).statusCode = 503\<close> and so on; \<open>isConnectionError_p\<close> is the
  property \<^verbatim>\<open>isConnectionError\<close>).
\<close>

record jserror =
  errClass :: errclass
  message :: string
  statusCode :: "int option"
  is503Error :: bool
  isConsentBlocked :: bool
  isGlobalBlock :: bool
  isCircuitBreaker :: bool
  isConnectionError_p :: bool

definition newError :: "string \<Rightarrow> jserror" where
  "newError msg =
     \<lparr> errClass = PlainError, message = msg, statusCode = None, is503Error = False,
       isConsentBlocked = False, isGlobalBlock = False, isCircuitBreaker = False,
       isConnectionError_p = False \<rparr>"

subsection \<open>State of the client\<close>

record modalState =
  isVisible :: bool
  failedEndpoints_m :: "string list"
  is503Error_m :: bool
  onClose :: "nat option"

text \<open>
  The fields of class \<^verbatim>\<open>APIsw\<close>, the module-level \<^verbatim>\<open>global503Status\<close>,
  \<^verbatim>\<open>pendingRequests\<close> and \<^verbatim>\<open>requestTimestamps\<close>, and four
  book-keeping fields of the model: promises are numbered (\<open>nextPromise\<close> is the next
  fresh one), \<open>fetched\<close> lists the endpoints for which \<^verbatim>\<open>fetch\<close> was called,
  \<open>probes\<close> counts the health probes started, and \<open>notified\<close> counts the rounds of
  \<^verbatim>\<open>notifyModalStateListeners\<close>. A timer of
  \<^verbatim>\<open>requestTimeouts\<close> is the time at which it fires.
\<close>

record apisw =
  modalState :: modalState
  pageApiCalls :: "string list"
  isApiBlocked :: bool
  apiIsDown :: bool
  healthCheckInProgress :: bool
  lastHealthCheckTime :: int
  failedEndpoints :: "string set"
  endpointFailureTimes :: "string \<rightharpoonup> int"
  globalRequestBlocked :: bool
  globalBlockTime :: int
  lastModalShowTime :: int
  pendingRequests :: "string \<rightharpoonup> nat"
  requestTimeouts :: "string \<rightharpoonup> int"
  global503Status :: bool
  pendingRequests_g :: "string \<rightharpoonup> nat"
  requestTimestamps :: "string \<rightharpoonup> int"
  nextPromise :: nat
  fetched :: "string list"
  probes :: nat
  notified :: nat

definition healthCheckCooldown :: int where "healthCheckCooldown = 30000"
definition endpointCooldown :: int where "endpointCooldown = 60000"
definition globalBlockCooldown :: int where "globalBlockCooldown = 30000"
definition modalCooldown :: int where "modalCooldown = 5000"

text \<open>The state of a freshly constructed client.\<close>

definition initial :: apisw where
  "initial =
     \<lparr> modalState = \<lparr> isVisible = False, failedEndpoints_m = [], is503Error_m = False,
                      onClose = None \<rparr>,
       pageApiCalls = [], isApiBlocked = False, apiIsDown = False,
       healthCheckInProgress = False, lastHealthCheckTime = 0,
       failedEndpoints = {}, endpointFailureTimes = Map.empty,
       globalRequestBlocked = False, globalBlockTime = 0, lastModalShowTime = 0,
       pendingRequests = Map.empty, requestTimeouts = Map.empty,
       global503Status = False, pendingRequests_g = Map.empty,
       requestTimestamps = Map.empty, nextPromise = 0, fetched = [], probes = 0,
       notified = 0 \<rparr>"

subsection \<open>Failure notifier\<close>

text \<open>
  \<^verbatim>\<open>Array.from(new Set(xs))\<close>: the elements of \<open>xs\<close> in the order of their first
  occurrence.
\<close>

fun uniq :: "'a list \<Rightarrow> 'a list \<Rightarrow> 'a list" where
  "uniq seen [] = []"
| "uniq seen (x # xs) = (if x \<in> set seen then uniq seen xs else x # uniq (x # seen) xs)"

definition arrayFromSet :: "'a list \<Rightarrow> 'a list" where
  "arrayFromSet xs = uniq [] xs"

definition notifyModalStateListeners :: "apisw \<Rightarrow> apisw" where
  "notifyModalStateListeners s = s\<lparr>notified := Suc (notified s)\<rparr>"

definition showApiFailureModal ::
  "int \<Rightarrow> string list \<Rightarrow> bool \<Rightarrow> nat option \<Rightarrow> apisw \<Rightarrow> apisw" where
  "showApiFailureModal now eps is503 cb s =
     (if isVisible (modalState s) then s
      else if now - lastModalShowTime s < modalCooldown then s
      else notifyModalStateListeners
             (s\<lparr>modalState := \<lparr> isVisible = True, failedEndpoints_m = arrayFromSet eps,
                                 is503Error_m = is503, onClose = cb \<rparr>,
                lastModalShowTime := now\<rparr>))"

definition hideApiFailureModal :: "apisw \<Rightarrow> apisw" where
  "hideApiFailureModal s =
     notifyModalStateListeners
       (s\<lparr>modalState := \<lparr> isVisible = False, failedEndpoints_m = [], is503Error_m = False,
                           onClose = None \<rparr>\<rparr>)"

subsection \<open>JWT manager\<close>

record jwtToken =
  token :: string
  expiresAt :: int

text \<open>
  What \<^verbatim>\<open>localStorage.getItem\<close> finds under the key: a string that
  \<^verbatim>\<open>JSON.parse\<close> turns into a token, the string \<^verbatim>\<open>null\<close>, a string on
  which \<^verbatim>\<open>JSON.parse\<close> throws, or the empty string, which is falsy and is not
  parsed.
\<close>

datatype storedItem = Serialized jwtToken | SerializedNull | Unparsable | EmptyString

text \<open>
  \<open>jwt_token\<close> is the field \<^verbatim>\<open>this.token\<close>; \<open>localStorage\<close> is the browser's
  storage, \<open>None\<close> where there is no \<^verbatim>\<open>window.localStorage\<close> (server-side
  rendering).
\<close>

record jwtAuthManager =
  jwt_token :: "jwtToken option"
  localStorage :: "(string \<rightharpoonup> storedItem) option"

definition clearToken :: "jwtAuthManager \<Rightarrow> jwtAuthManager" where
  "clearToken m =
     m\<lparr>jwt_token := None,
       localStorage := (case localStorage m of
                          None \<Rightarrow> None
                        | Some st \<Rightarrow> Some (st(''packmovego_jwt_token'' := None)))\<rparr>"

definition loadStoredToken :: "int \<Rightarrow> jwtAuthManager \<Rightarrow> jwtAuthManager" where
  "loadStoredToken now m =
     (case localStorage m of
        None \<Rightarrow> m
      | Some st \<Rightarrow>
          (case st ''packmovego_jwt_token'' of
             None \<Rightarrow> m
           | Some EmptyString \<Rightarrow> m
           | Some Unparsable \<Rightarrow> clearToken m
           | Some SerializedNull \<Rightarrow> m\<lparr>jwt_token := None\<rparr>
           | Some (Serialized t) \<Rightarrow>
               (let m' = m\<lparr>jwt_token := Some t\<rparr>
                in if expiresAt t < now then clearToken m' else m')))"

definition setToken :: "jwtToken \<Rightarrow> jwtAuthManager \<Rightarrow> jwtAuthManager" where
  "setToken t m =
     m\<lparr>jwt_token := Some t,
       localStorage := (case localStorage m of
                          None \<Rightarrow> None
                        | Some st \<Rightarrow> Some (st(''packmovego_jwt_token'' \<mapsto> Serialized t)))\<rparr>"

definition getToken :: "int \<Rightarrow> jwtAuthManager \<Rightarrow> string option \<times> jwtAuthManager" where
  "getToken now m =
     (case jwt_token m of
        None \<Rightarrow> (None, clearToken m)
      | Some t \<Rightarrow> if expiresAt t < now then (None, clearToken m) else (Some (token t), m))"

definition isAuthenticated :: "int \<Rightarrow> jwtAuthManager \<Rightarrow> bool \<times> jwtAuthManager" where
  "isAuthenticated now m = (case getToken now m of (t, m') \<Rightarrow> (t \<noteq> None, m'))"

text \<open>The headers are a list of name and value; an empty token string is falsy.\<close>

definition getAuthHeaders ::
  "int \<Rightarrow> jwtAuthManager \<Rightarrow> (string \<times> string) list \<times> jwtAuthManager" where
  "getAuthHeaders now m =
     (case getToken now m of
        (Some t, m') \<Rightarrow> (if t \<noteq> [] then [(''Authorization'', ''Bearer '' @ t)] else [], m')
      | (None, m') \<Rightarrow> ([], m'))"

subsection \<open>Request identity, tracking, breaker and global block\<close>

text \<open>
  The part of \<^verbatim>\<open>RequestInit\<close> the client reads: \<^verbatim>\<open>options.method\<close> and
  \<^verbatim>\<open>options.body\<close> (a string, as every caller passes), here \<open>req_method\<close> and
  \<open>req_body\<close>.
\<close>

record requestInit =
  req_method :: "string option"
  req_body :: "string option"

definition noOptions :: requestInit where
  "noOptions = \<lparr> req_method = None, req_body = None \<rparr>"

text \<open>
  \<^verbatim>\<open>JSON.stringify\<close> of a string: quoted, with the quote and the backslash escaped by
  a backslash, backspace, form feed, line feed, carriage return and tab written as
  \<^verbatim>\<open>\b \f \n \r \t\<close>, and every other character below 32 as
  \<^verbatim>\<open>\u00\<close> and its two hexadecimal digits.
\<close>

definition hexDigit :: "nat \<Rightarrow> char" where
  "hexDigit n = ''0123456789abcdef'' ! n"

fun jsonEscape :: "string \<Rightarrow> string" where
  "jsonEscape [] = []"
| "jsonEscape (c # cs) =
     (if c = CHR 0x22 \<or> c = CHR 0x5C then CHR 0x5C # c # jsonEscape cs
      else if c = CHR 0x08 then CHR 0x5C # CHR ''b'' # jsonEscape cs
      else if c = CHR 0x0C then CHR 0x5C # CHR ''f'' # jsonEscape cs
      else if c = CHR 0x0A then CHR 0x5C # CHR ''n'' # jsonEscape cs
      else if c = CHR 0x0D then CHR 0x5C # CHR ''r'' # jsonEscape cs
      else if c = CHR 0x09 then CHR 0x5C # CHR ''t'' # jsonEscape cs
      else if (of_char c :: nat) < 32
      then CHR 0x5C # CHR ''u'' # CHR ''0'' # CHR ''0'' #
           hexDigit (of_char c div 16) # hexDigit (of_char c mod 16) # jsonEscape cs
      else c # jsonEscape cs)"

definition jsonStringify :: "string \<Rightarrow> string" where
  "jsonStringify s = CHR 0x22 # jsonEscape s @ [CHR 0x22]"

text \<open>
  The request identity \<^verbatim>\<open>`${method}:${endpoint}:${body}`\<close> of \<^verbatim>\<open>getRequestKey\<close>
  (the method of the class and the function of the module are the same), and its two local
  constants \<^verbatim>\<open>method\<close> and \<^verbatim>\<open>body\<close> on their own.
\<close>

definition getRequestKey :: "string \<Rightarrow> requestInit \<Rightarrow> string" where
  "getRequestKey endpoint options =
     (let m = (case req_method options of None \<Rightarrow> ''GET'' | Some x \<Rightarrow> if x = [] then ''GET'' else x);
          b = (case req_body options of None \<Rightarrow> [] | Some x \<Rightarrow> if x = [] then [] else jsonStringify x)
      in m @ '':'' @ endpoint @ '':'' @ b)"



definition trackApiCall :: "string \<Rightarrow> apisw \<Rightarrow> apisw" where
  "trackApiCall endpoint s =
     (if endpoint \<in> set (pageApiCalls s) then s
      else s\<lparr>pageApiCalls := pageApiCalls s @ [endpoint]\<rparr>)"

definition isApiGlobally503 :: "apisw \<Rightarrow> bool" where
  "isApiGlobally503 s = global503Status s"

definition setGlobal503Status :: "bool \<Rightarrow> apisw \<Rightarrow> apisw" where
  "setGlobal503Status b s = s\<lparr>global503Status := b\<rparr>"

definition setApiBlocked :: "bool \<Rightarrow> apisw \<Rightarrow> apisw" where
  "setApiBlocked b s = s\<lparr>isApiBlocked := b\<rparr>"

definition isEndpointInCircuitBreaker :: "int \<Rightarrow> string \<Rightarrow> apisw \<Rightarrow> bool \<times> apisw" where
  "isEndpointInCircuitBreaker now endpoint s =
     (if endpoint \<notin> failedEndpoints s then (False, s)
      else
        let failureTime = (case endpointFailureTimes s endpoint of None \<Rightarrow> 0 | Some t \<Rightarrow> t)
        in if now - failureTime > endpointCooldown
           then (False, s\<lparr>failedEndpoints := failedEndpoints s - {endpoint},
                           endpointFailureTimes := (endpointFailureTimes s)(endpoint := None)\<rparr>)
           else (True, s))"

definition addEndpointToCircuitBreaker :: "int \<Rightarrow> string \<Rightarrow> apisw \<Rightarrow> apisw" where
  "addEndpointToCircuitBreaker now endpoint s =
     s\<lparr>failedEndpoints := insert endpoint (failedEndpoints s),
       endpointFailureTimes := (endpointFailureTimes s)(endpoint \<mapsto> now)\<rparr>"

definition isGlobalRequestBlocked :: "int \<Rightarrow> apisw \<Rightarrow> bool \<times> apisw" where
  "isGlobalRequestBlocked now s =
     (if \<not> globalRequestBlocked s then (False, s)
      else if now - globalBlockTime s > globalBlockCooldown
           then (False, s\<lparr>globalRequestBlocked := False, globalBlockTime := 0\<rparr>)
           else (True, s))"

definition activateGlobalRequestBlock :: "int \<Rightarrow> apisw \<Rightarrow> apisw" where
  "activateGlobalRequestBlock now s = s\<lparr>globalRequestBlocked := True, globalBlockTime := now\<rparr>"

subsection \<open>Pending-request registry\<close>

text \<open>
  \<^verbatim>\<open>addPendingRequest\<close> registers the promise and arms a timer of 30 seconds whose
  callback is \<open>pendingTimeoutFires\<close>; \<^verbatim>\<open>removePendingRequest\<close> is what the
  promise's \<^verbatim>\<open>finally\<close> runs when it settles.
\<close>

definition isRequestPending :: "string \<Rightarrow> apisw \<Rightarrow> bool" where
  "isRequestPending requestKey s = (pendingRequests s requestKey \<noteq> None)"

definition addPendingRequest :: "int \<Rightarrow> string \<Rightarrow> nat \<Rightarrow> apisw \<Rightarrow> apisw" where
  "addPendingRequest now requestKey p s =
     s\<lparr>pendingRequests := (pendingRequests s)(requestKey \<mapsto> p),
       requestTimeouts := (requestTimeouts s)(requestKey \<mapsto> now + 30000)\<rparr>"

definition pendingTimeoutFires :: "string \<Rightarrow> apisw \<Rightarrow> apisw" where
  "pendingTimeoutFires requestKey s =
     s\<lparr>pendingRequests := (pendingRequests s)(requestKey := None),
       requestTimeouts := (requestTimeouts s)(requestKey := None)\<rparr>"

definition removePendingRequest :: "string \<Rightarrow> apisw \<Rightarrow> apisw" where
  "removePendingRequest requestKey s =
     s\<lparr>pendingRequests := (pendingRequests s)(requestKey := None),
       requestTimeouts := (requestTimeouts s)(requestKey := None)\<rparr>"

subsection \<open>Consent gate and health gate\<close>

definition consentError :: jserror where
  "consentError =
     (newError ''503 Service Unavailable: API calls blocked due to cookie consent - user must opt in first'')
       \<lparr>statusCode := Some 503, is503Error := True, isConsentBlocked := True\<rparr>"

definition checkConsentMiddleware :: "apisw \<Rightarrow> jserror option" where
  "checkConsentMiddleware s = (if isApiBlocked s then Some consentError else None)"

text \<open>
  \<^verbatim>\<open>checkApiHealth\<close> awaits \<^verbatim>\<open>this.checkHealth()\<close>, which goes through the
  response cache of \<^verbatim>\<open>util/apiCache\<close> and a nested request to the health endpoint.
  The probe is represented by what it gives back: a value, or a thrown error. Of its effects
  only those of \<^verbatim>\<open>checkApiHealth\<close> itself are in the state, and \<open>probes\<close>
  counts it; a probe that some other call is still awaiting shows as
  \<open>healthCheckInProgress\<close>.
\<close>

datatype probe = ProbeResult jsval | ProbeThrows

definition checkApiHealth :: "int \<Rightarrow> probe \<Rightarrow> apisw \<Rightarrow> bool \<times> apisw" where
  "checkApiHealth now pr s =
     (if apiIsDown s \<and> now - lastHealthCheckTime s < healthCheckCooldown then (False, s)
      else
        let s1 = (if apiIsDown s then s\<lparr>apiIsDown := False\<rparr> else s)
        in if healthCheckInProgress s1 then (False, s1)
           else
             let s2 = s1\<lparr>healthCheckInProgress := True, lastHealthCheckTime := now,
                        probes := Suc (probes s1)\<rparr>
             in (case pr of
                   ProbeResult healthResult \<Rightarrow>
                     if truthy healthResult \<and> truthy (getProp healthResult ''error'')
                     then (False, (setGlobal503Status True (s2\<lparr>apiIsDown := True\<rparr>))
                                    \<lparr>healthCheckInProgress := False\<rparr>)
                     else (True, s2\<lparr>apiIsDown := False, healthCheckInProgress := False\<rparr>)
                 | ProbeThrows \<Rightarrow>
                     (False, (setGlobal503Status True (s2\<lparr>apiIsDown := True\<rparr>))
                               \<lparr>healthCheckInProgress := False\<rparr>)))"

subsection \<open>Request pipeline: the second registry and the throttle\<close>

definition MIN_REQUEST_INTERVAL :: int where "MIN_REQUEST_INTERVAL = 1000"

definition shouldThrottleRequest :: "int \<Rightarrow> string \<Rightarrow> apisw \<Rightarrow> bool \<times> apisw" where
  "shouldThrottleRequest now endpoint s =
     (let lastRequestTime = (case requestTimestamps s endpoint of None \<Rightarrow> 0 | Some t \<Rightarrow> t)
      in if now - lastRequestTime < MIN_REQUEST_INTERVAL then (True, s)
         else (False, s\<lparr>requestTimestamps := (requestTimestamps s)(endpoint \<mapsto> now)\<rparr>))"

text \<open>
  How \<^verbatim>\<open>executeRequestWithDeduplication\<close> starts: it hands back the promise already
  registered at module level, or issues the fetch and registers its promise, or (throttled)
  first waits \<^verbatim>\<open>MIN_REQUEST_INTERVAL\<close> and issues the fetch then
  (\<open>resumeAfterThrottle\<close>).
\<close>

datatype started = Reused nat | Fetching nat | Waiting

definition resumeAfterThrottle :: "string \<Rightarrow> requestInit \<Rightarrow> apisw \<Rightarrow> nat \<times> apisw" where
  "resumeAfterThrottle endpoint options s =
     (let q = nextPromise s
      in (q, s\<lparr>nextPromise := Suc q, fetched := fetched s @ [endpoint],
               pendingRequests_g := (pendingRequests_g s)(getRequestKey endpoint options \<mapsto> q)\<rparr>))"

definition executeRequestWithDeduplication ::
  "int \<Rightarrow> string \<Rightarrow> requestInit \<Rightarrow> apisw \<Rightarrow> started \<times> apisw" where
  "executeRequestWithDeduplication now endpoint options s0 =
     (let s1 = trackApiCall endpoint s0;
          requestKey = getRequestKey endpoint options
      in case pendingRequests_g s1 requestKey of
           Some q \<Rightarrow> (Reused q, s1)
         | None \<Rightarrow>
             (case shouldThrottleRequest now endpoint s1 of
                (True, s2) \<Rightarrow> (Waiting, s2)
              | (False, s2) \<Rightarrow>
                  (case resumeAfterThrottle endpoint options s2 of (q, s3) \<Rightarrow> (Fetching q, s3))))"

text \<open>The \<^verbatim>\<open>finally\<close> of the module-level registry.\<close>

definition forgetPending_g :: "string \<Rightarrow> apisw \<Rightarrow> apisw" where
  "forgetPending_g requestKey s = s\<lparr>pendingRequests_g := (pendingRequests_g s)(requestKey := None)\<rparr>"

subsection \<open>makeRequestInternal and makePublicRequestInternal\<close>

text \<open>
  A call ends in one of three ways before any response arrives: it is rejected by a gate,
  it returns the promise found in the registry (\<open>Joined p\<close>: the promise the caller
  holds is resolved with the registered promise \<open>p\<close> and settles as \<open>p\<close> does), or
  it enters the request pipeline and registers a fresh promise. The code before
  \<^verbatim>\<open>await this.checkApiHealth()\<close> runs at time \<open>now\<close>, the code after it at time
  \<open>later\<close>; for the health endpoint nothing is awaited. Here the call is one step, with
  nothing happening to the client between the two parts; the two parts on their own, for
  runs in which other calls come in between, follow further down. The parameter
  \<^verbatim>\<open>requireAuth\<close> only adds a header to the request and is left out.
\<close>

datatype outcome = Rejected jserror | Joined nat | Issued nat

fun rejection :: "outcome \<Rightarrow> jserror option" where
  "rejection (Rejected e) = Some e"
| "rejection _ = None"

fun isIssued :: "outcome \<Rightarrow> bool" where
  "isIssued (Issued p) = True"
| "isIssued _ = False"

text \<open>The errors the gates throw.\<close>

definition error503 :: "string \<Rightarrow> jserror" where
  "error503 msg = (newError msg)\<lparr>statusCode := Some 503, is503Error := True\<rparr>"

definition globallyUnavailable :: jserror where
  "globallyUnavailable = error503 ''503 Service Unavailable: API is globally unavailable''"

definition globalBlockError :: jserror where
  "globalBlockError =
     (error503 ''503 Service Unavailable: API is temporarily unavailable (global block)'')
       \<lparr>isGlobalBlock := True\<rparr>"

definition circuitBreakerError :: "string \<Rightarrow> jserror" where
  "circuitBreakerError endpoint =
     (error503 (''503 Service Unavailable: '' @ endpoint @
                '' is temporarily unavailable (circuit breaker)''))
       \<lparr>isCircuitBreaker := True\<rparr>"

definition healthCheckFailed :: jserror where
  "healthCheckFailed = error503 ''503 Service Unavailable: API health check failed''"

definition makeRequestInternal ::
  "int \<Rightarrow> int \<Rightarrow> probe \<Rightarrow> string \<Rightarrow> requestInit \<Rightarrow> apisw \<Rightarrow> outcome \<times> apisw" where
  "makeRequestInternal now later pr endpoint options s0 =
     (let s1 = trackApiCall endpoint s0 in
      if isApiGlobally503 s1 then
        (Rejected globallyUnavailable, showApiFailureModal now [endpoint] True None s1)
      else
        let requestKey = getRequestKey endpoint options in
        case pendingRequests s1 requestKey of
          Some p \<Rightarrow> (Joined p, s1)
        | None \<Rightarrow>
            let blocked = (if endpoint \<noteq> ''/v0/health'' then isGlobalRequestBlocked now s1
                           else (False, s1));
                s2 = snd blocked
            in if fst blocked then
                 (Rejected globalBlockError, showApiFailureModal now [endpoint] True None s2)
               else
                 let tripped = (if endpoint \<noteq> ''/v0/health''
                                then isEndpointInCircuitBreaker now endpoint s2 else (False, s2));
                     s3 = snd tripped
                 in if fst tripped then
                      (Rejected (circuitBreakerError endpoint),
                       showApiFailureModal now [endpoint] True None s3)
                    else
                      case (if endpoint \<noteq> ''/v0/health'' then checkConsentMiddleware s3 else None) of
                        Some e \<Rightarrow> (Rejected e, s3)
                      | None \<Rightarrow>
                          let healthy = (if endpoint \<noteq> ''/v0/health'' then checkApiHealth now pr s3
                                         else (True, s3));
                              s4 = snd healthy
                          in if \<not> fst healthy then
                               (Rejected healthCheckFailed,
                                showApiFailureModal later [endpoint] True None
                                  (addEndpointToCircuitBreaker later endpoint
                                     (activateGlobalRequestBlock later s4)))
                             else
                               let t = (if endpoint \<noteq> ''/v0/health'' then later else now);
                                   s5 = snd (executeRequestWithDeduplication t endpoint options s4);
                                   p = nextPromise s5
                               in (Issued p,
                                   addPendingRequest t requestKey p (s5\<lparr>nextPromise := Suc p\<rparr>)))"

text \<open>
  The public variant: the same gates, no notification on a global block or an open breaker,
  and \<^verbatim>\<open>executePublicRequest\<close>, which fetches at once, as its pipeline.
\<close>

definition makePublicRequestInternal ::
  "int \<Rightarrow> int \<Rightarrow> probe \<Rightarrow> string \<Rightarrow> requestInit \<Rightarrow> apisw \<Rightarrow> outcome \<times> apisw" where
  "makePublicRequestInternal now later pr endpoint options s0 =
     (let s1 = trackApiCall endpoint s0 in
      if isApiGlobally503 s1 then
        (Rejected globallyUnavailable, showApiFailureModal now [endpoint] True None s1)
      else
        let requestKey = getRequestKey endpoint options in
        case pendingRequests s1 requestKey of
          Some p \<Rightarrow> (Joined p, s1)
        | None \<Rightarrow>
            let blocked = (if endpoint \<noteq> ''/v0/health'' then isGlobalRequestBlocked now s1
                           else (False, s1));
                s2 = snd blocked
            in if fst blocked then (Rejected globalBlockError, s2)
               else
                 let tripped = (if endpoint \<noteq> ''/v0/health''
                                then isEndpointInCircuitBreaker now endpoint s2 else (False, s2));
                     s3 = snd tripped
                 in if fst tripped then (Rejected (circuitBreakerError endpoint), s3)
                    else
                      case (if endpoint \<noteq> ''/v0/health'' then checkConsentMiddleware s3 else None) of
                        Some e \<Rightarrow> (Rejected e, s3)
                      | None \<Rightarrow>
                          let healthy = (if endpoint \<noteq> ''/v0/health'' then checkApiHealth now pr s3
                                         else (True, s3));
                              s4 = snd healthy
                          in if \<not> fst healthy then
                               (Rejected healthCheckFailed,
                                showApiFailureModal later [endpoint] True None
                                  (addEndpointToCircuitBreaker later endpoint
                                     (activateGlobalRequestBlock later s4)))
                             else
                               let t = (if endpoint \<noteq> ''/v0/health'' then later else now);
                                   p = nextPromise s4
                               in (Issued p,
                                   addPendingRequest t requestKey p
                                     (s4\<lparr>nextPromise := Suc p,
                                         fetched := fetched s4 @ [endpoint]\<rparr>)))"

text \<open>The two entry points hand the call on as it is.\<close>

definition makeRequest ::
  "int \<Rightarrow> int \<Rightarrow> probe \<Rightarrow> string \<Rightarrow> requestInit \<Rightarrow> apisw \<Rightarrow> outcome \<times> apisw" where
  "makeRequest now later pr endpoint options s =
     makeRequestInternal now later pr endpoint options s"

definition makePublicRequest ::
  "int \<Rightarrow> int \<Rightarrow> probe \<Rightarrow> string \<Rightarrow> requestInit \<Rightarrow> apisw \<Rightarrow> outcome \<times> apisw" where
  "makePublicRequest now later pr endpoint options s =
     makePublicRequestInternal now later pr endpoint options s"

text \<open>
  The state in which a call to a non-health endpoint reaches the consent gate: the call has
  been tracked, and an elapsed global block and an elapsed breaker entry have been removed.
\<close>

definition pastBreaker :: "int \<Rightarrow> string \<Rightarrow> apisw \<Rightarrow> apisw" where
  "pastBreaker now endpoint s =
     snd (isEndpointInCircuitBreaker now endpoint
            (snd (isGlobalRequestBlocked now (trackApiCall endpoint s))))"

subsection \<open>A call in two steps\<close>

text \<open>
  \<^verbatim>\<open>makeRequestInternal\<close> is an \<^verbatim>\<open>async\<close> function: it runs without interruption up
  to \<^verbatim>\<open>await this.checkApiHealth()\<close>, and the rest runs when the awaited promise has
  settled; other calls may run in between. \<^verbatim>\<open>checkApiHealth\<close> in turn runs up to
  \<^verbatim>\<open>await this.checkHealth()\<close>, unless it returns \<^verbatim>\<open>false\<close> before. The two
  functions are split here at these points. \<open>checkApiHealth_begin\<close> gives \<open>Some False\<close>
  when the function has returned, and \<open>None\<close> when it has started the probe, whose
  answer \<open>checkApiHealth_end\<close> takes up, running the \<^verbatim>\<open>finally\<close> block as well.
\<close>

definition checkApiHealth_begin :: "int \<Rightarrow> apisw \<Rightarrow> bool option \<times> apisw" where
  "checkApiHealth_begin now s =
     (if apiIsDown s \<and> now - lastHealthCheckTime s < healthCheckCooldown then (Some False, s)
      else
        let s1 = (if apiIsDown s then s\<lparr>apiIsDown := False\<rparr> else s)
        in if healthCheckInProgress s1 then (Some False, s1)
           else (None, s1\<lparr>healthCheckInProgress := True, lastHealthCheckTime := now,
                           probes := Suc (probes s1)\<rparr>))"

definition checkApiHealth_end :: "probe \<Rightarrow> apisw \<Rightarrow> bool \<times> apisw" where
  "checkApiHealth_end pr s2 =
     (case pr of
        ProbeResult healthResult \<Rightarrow>
          if truthy healthResult \<and> truthy (getProp healthResult ''error'')
          then (False, (setGlobal503Status True (s2\<lparr>apiIsDown := True\<rparr>))
                         \<lparr>healthCheckInProgress := False\<rparr>)
          else (True, s2\<lparr>apiIsDown := False, healthCheckInProgress := False\<rparr>)
      | ProbeThrows \<Rightarrow>
          (False, (setGlobal503Status True (s2\<lparr>apiIsDown := True\<rparr>))
                    \<lparr>healthCheckInProgress := False\<rparr>))"

text \<open>
  The first step of a call either settles it, or leaves it waiting for the health gate, whose
  answer is already there (\<open>Some False\<close>) or expected from the probe (\<open>None\<close>). The
  second step, \<open>makeRequestInternal_resume\<close>, is the code after the \<^verbatim>\<open>await\<close>, run
  at time \<open>later\<close> with the answer of the health gate. A call to the health endpoint
  awaits nothing and runs that code in its first step.
\<close>

datatype began = Settled outcome | AwaitsHealth "bool option"

definition makeRequestInternal_resume ::
  "int \<Rightarrow> bool \<Rightarrow> string \<Rightarrow> requestInit \<Rightarrow> apisw \<Rightarrow> outcome \<times> apisw" where
  "makeRequestInternal_resume later healthy endpoint options s4 =
     (if \<not> healthy then
        (Rejected healthCheckFailed,
         showApiFailureModal later [endpoint] True None
           (addEndpointToCircuitBreaker later endpoint (activateGlobalRequestBlock later s4)))
      else
        let s5 = snd (executeRequestWithDeduplication later endpoint options s4);
            p = nextPromise s5
        in (Issued p,
            addPendingRequest later (getRequestKey endpoint options) p
              (s5\<lparr>nextPromise := Suc p\<rparr>)))"

definition makeRequestInternal_begin ::
  "int \<Rightarrow> string \<Rightarrow> requestInit \<Rightarrow> apisw \<Rightarrow> began \<times> apisw" where
  "makeRequestInternal_begin now endpoint options s0 =
     (let s1 = trackApiCall endpoint s0 in
      if isApiGlobally503 s1 then
        (Settled (Rejected globallyUnavailable), showApiFailureModal now [endpoint] True None s1)
      else
        let requestKey = getRequestKey endpoint options in
        case pendingRequests s1 requestKey of
          Some p \<Rightarrow> (Settled (Joined p), s1)
        | None \<Rightarrow>
            let blocked = (if endpoint \<noteq> ''/v0/health'' then isGlobalRequestBlocked now s1
                           else (False, s1));
                s2 = snd blocked
            in if fst blocked then
                 (Settled (Rejected globalBlockError),
                  showApiFailureModal now [endpoint] True None s2)
               else
                 let tripped = (if endpoint \<noteq> ''/v0/health''
                                then isEndpointInCircuitBreaker now endpoint s2 else (False, s2));
                     s3 = snd tripped
                 in if fst tripped then
                      (Settled (Rejected (circuitBreakerError endpoint)),
                       showApiFailureModal now [endpoint] True None s3)
                    else
                      case (if endpoint \<noteq> ''/v0/health'' then checkConsentMiddleware s3 else None) of
                        Some e \<Rightarrow> (Settled (Rejected e), s3)
                      | None \<Rightarrow>
                          if endpoint \<noteq> ''/v0/health''
                          then (AwaitsHealth (fst (checkApiHealth_begin now s3)),
                                snd (checkApiHealth_begin now s3))
                          else (Settled (fst (makeRequestInternal_resume now True endpoint options s3)),
                                snd (makeRequestInternal_resume now True endpoint options s3)))"

text \<open>
  The timer armed by \<^verbatim>\<open>addPendingRequest\<close> is due when its time has come; the event loop
  then runs its callback.
\<close>

definition timerDue :: "int \<Rightarrow> string \<Rightarrow> apisw \<Rightarrow> bool" where
  "timerDue now requestKey s =
     (case requestTimeouts s requestKey of None \<Rightarrow> False | Some t \<Rightarrow> t \<le> now)"

definition runTimer :: "int \<Rightarrow> string \<Rightarrow> apisw \<Rightarrow> apisw" where
  "runTimer now requestKey s =
     (if timerDue now requestKey s then pendingTimeoutFires requestKey s else s)"

subsection \<open>Retry engine\<close>

text \<open>
  \<^verbatim>\<open>String.prototype.includes\<close> and \<^verbatim>\<open>toLowerCase\<close> (on the letters A to Z).
\<close>

fun str_includes :: "string \<Rightarrow> string \<Rightarrow> bool" where
  "str_includes [] sub = (sub = [])"
| "str_includes (c # cs) sub = (prefix sub (c # cs) \<or> str_includes cs sub)"

definition toLowerCase :: "string \<Rightarrow> string" where
  "toLowerCase s =
     map (\<lambda>c. case map_of (zip ''ABCDEFGHIJKLMNOPQRSTUVWXYZ'' ''abcdefghijklmnopqrstuvwxyz'') c of
                 Some l \<Rightarrow> l
               | None \<Rightarrow> c) s"

definition maxRetries_default :: int where "maxRetries_default = 3"
definition baseDelay :: real where "baseDelay = 1000"
definition maxDelay :: real where "maxDelay = 10000"
definition retryableStatusCodes :: "int list" where "retryableStatusCodes = [503, 502, 504, 0]"
definition retryableErrors :: "string list" where
  "retryableErrors = [''Failed to fetch'', ''ERR_CONNECTION_REFUSED'', ''ERR_NETWORK'', ''timeout'']"

text \<open>
  \<^verbatim>\<open>isConnectionError\<close> comes from \<^verbatim>\<open>util/errorUtils\<close>, which is not among the
  sources: it is a parameter. In \<^verbatim>\<open>error.statusCode && codes.includes(error.statusCode)\<close>
  a status code of 0 is falsy.
\<close>

definition isRetryableError :: "(jserror \<Rightarrow> bool) \<Rightarrow> jserror \<Rightarrow> bool" where
  "isRetryableError isConnectionError error =
     (if errClass error = NotAnError then False
      else
        let errorMessage = toLowerCase (message error);
            hasRetryableMessage =
              list_ex (\<lambda>msg. str_includes errorMessage (toLowerCase msg)) retryableErrors;
            hasRetryableStatus =
              (case statusCode error of
                 None \<Rightarrow> False
               | Some c \<Rightarrow> c \<noteq> 0 \<and> c \<in> set retryableStatusCodes)
        in hasRetryableMessage \<or> hasRetryableStatus \<or> isConnectionError error)"

text \<open>
  What a run of \<^verbatim>\<open>retryWithBackoff\<close> did: how it ended, how many times it called
  \<open>fn\<close>, and the delays it slept between the calls.
\<close>

record 'a retryRun =
  result :: "jserror + 'a"
  attempts :: nat
  delays :: "real list"

text \<open>The value thrown by \<^verbatim>\<open>throw lastError!\<close> when the loop body never ran.\<close>

definition undefinedThrown :: jserror where
  "undefinedThrown = (newError [])\<lparr>errClass := NotAnError\<rparr>"

text \<open>
  The loop of \<^verbatim>\<open>retryWithBackoff\<close>, with its variables \<open>attempt\<close> and
  \<open>lastError\<close> (\<open>None\<close> while unassigned). The operation \<open>fn\<close> is given by what
  its call number \<open>attempt\<close> returns or throws, \<^verbatim>\<open>Math.random()\<close> by the value
  \<open>random attempt\<close> it yields after that call.

  The numbers of the program are IEEE 754 doubles: a product or a sum is the double nearest
  to the exact result. That rounding is the parameter \<open>fl\<close>; it is applied to the
  product \<^verbatim>\<open>Math.random() * 1000\<close> and to the sum \<^verbatim>\<open>baseDelay + jitter\<close>. The
  base delay \<^verbatim>\<open>RETRY_CONFIG.baseDelay * Math.pow(2, attempt)\<close> is an integer times a
  power of two and is exact, and so is the minimum of two doubles.
\<close>

function retryLoop ::
  "(nat \<Rightarrow> jserror + 'a) \<Rightarrow> (jserror \<Rightarrow> bool) \<Rightarrow> (nat \<Rightarrow> real) \<Rightarrow> (real \<Rightarrow> real) \<Rightarrow> int
     \<Rightarrow> nat \<Rightarrow> jserror option \<Rightarrow> real list \<Rightarrow> 'a retryRun" where
  "retryLoop fn isConnectionError random fl maxRetries attempt lastError ds =
     (if int attempt \<le> maxRetries then
        (case fn attempt of
           Inr v \<Rightarrow> \<lparr> result = Inr v, attempts = Suc attempt, delays = ds \<rparr>
         | Inl error \<Rightarrow>
             if \<not> isRetryableError isConnectionError error \<or> int attempt = maxRetries
             then \<lparr> result = Inl error, attempts = Suc attempt, delays = ds \<rparr>
             else
               let jitter = fl (random attempt * 1000);
                   delay = min (fl (baseDelay * 2 ^ attempt + jitter)) maxDelay
               in retryLoop fn isConnectionError random fl maxRetries (Suc attempt) (Some error)
                    (ds @ [delay]))
      else \<lparr> result = Inl (case lastError of None \<Rightarrow> undefinedThrown | Some e \<Rightarrow> e),
             attempts = attempt, delays = ds \<rparr>)"
  by pat_completeness auto
termination
  by (relation "measure (\<lambda>(fn, c, r, fl, maxRetries, attempt, e, ds).
        nat (maxRetries + 1 - int attempt))")
     auto

declare retryLoop.simps [simp del]

text \<open>The delay slept after call number \<open>attempt\<close> has failed.\<close>

definition backoff :: "(nat \<Rightarrow> real) \<Rightarrow> (real \<Rightarrow> real) \<Rightarrow> nat \<Rightarrow> real" where
  "backoff random fl attempt =
     min (fl (baseDelay * 2 ^ attempt + fl (random attempt * 1000))) maxDelay"

definition retryWithBackoff ::
  "(nat \<Rightarrow> jserror + 'a) \<Rightarrow> (jserror \<Rightarrow> bool) \<Rightarrow> (nat \<Rightarrow> real) \<Rightarrow> (real \<Rightarrow> real) \<Rightarrow> int
     \<Rightarrow> 'a retryRun" where
  "retryWithBackoff fn isConnectionError random fl maxRetries =
     retryLoop fn isConnectionError random fl maxRetries 0 None []"

definition shouldRetryEndpoint :: "string \<Rightarrow> bool" where
  "shouldRetryEndpoint endpoint =
     list_ex (\<lambda>critical. str_includes endpoint critical)
       [''/v0/health'', ''/v0/locations'', ''/v0/service-areas'', ''/v0/services'', ''/v0/supplies'']"

text \<open>
  \<^verbatim>\<open>executeRequestWithRetry\<close>: the request of a critical endpoint runs under
  \<^verbatim>\<open>retryWithBackoff\<close> with the default number of retries, any other request once.
  Here \<open>fn\<close> stands for \<^verbatim>\<open>executeRequestWithDeduplication\<close>.
\<close>

definition executeRequestWithRetry ::
  "(nat \<Rightarrow> jserror + 'a) \<Rightarrow> (jserror \<Rightarrow> bool) \<Rightarrow> (nat \<Rightarrow> real) \<Rightarrow> (real \<Rightarrow> real) \<Rightarrow> string
     \<Rightarrow> 'a retryRun" where
  "executeRequestWithRetry fn isConnectionError random fl endpoint =
     (if shouldRetryEndpoint endpoint
      then retryWithBackoff fn isConnectionError random fl maxRetries_default
      else \<lparr> result = fn 0, attempts = 1, delays = [] \<rparr>)"

subsection \<open>executeRequest\<close>

text \<open>
  A \<^verbatim>\<open>Response\<close>: \<open>r_body\<close> is what \<^verbatim>\<open>response.json()\<close> resolves with, \<open>None\<close>
  when the body is not JSON and it rejects with a \<^verbatim>\<open>SyntaxError\<close>.
\<close>

record response =
  status :: int
  statusText :: string
  redirected :: bool
  r_url :: string
  r_body :: "jsval option"

definition ok :: "response \<Rightarrow> bool" where
  "ok r = (200 \<le> status r \<and> status r \<le> 299)"

text \<open>What \<^verbatim>\<open>fetch\<close> does: it resolves with a response or rejects with an error.\<close>

datatype fetchResult = Responds response | FetchThrows jserror

definition mockResponse :: "(string \<times> jsval) list \<Rightarrow> response" where
  "mockResponse payload =
     \<lparr> status = 503, statusText = ''Service Unavailable'', redirected = False, r_url = [],
       r_body = Some (JObj payload) \<rparr>"

definition tryFetch :: "fetchResult \<Rightarrow> jserror + response" where
  "tryFetch fr =
     (case fr of
        Responds resp \<Rightarrow>
          if redirected resp \<or> status resp \<in> set [301, 302, 307, 308]
          then Inr (mockResponse
                 [(''error'', JBool True), (''statusCode'', JNum 503),
                  (''message'', JStr ''Service Unavailable: API endpoint redirected (backend misconfiguration)''),
                  (''is503Error'', JBool True), (''isRedirectError'', JBool True),
                  (''redirectedTo'', JStr (r_url resp))])
          else Inr resp
      | FetchThrows fetchError \<Rightarrow>
          if errClass fetchError = TypeError \<and>
             (str_includes (message fetchError) ''Redirect is not allowed'' \<or>
              str_includes (message fetchError) ''CORS policy'')
          then Inr (mockResponse
                 [(''error'', JBool True), (''statusCode'', JNum 503),
                  (''message'', JStr ''Service Unavailable: CORS redirect error (backend misconfiguration)''),
                  (''is503Error'', JBool True), (''isRedirectError'', JBool True),
                  (''isCorsError'', JBool True)])
          else if errClass fetchError = TypeError \<and>
                  str_includes (message fetchError) ''Failed to fetch''
          then Inr (mockResponse
                 [(''error'', JBool True), (''statusCode'', JNum 503),
                  (''message'', JStr ''Service Unavailable: Connection failed''),
                  (''is503Error'', JBool True), (''isConnectionError'', JBool True)])
          else Inl fetchError)"

text \<open>Decimal digits of a status code, for the template strings.\<close>

fun digits :: "nat \<Rightarrow> string" where
  "digits n =
     (if n < 10 then [''0123456789'' ! n]
      else digits (n div 10) @ [''0123456789'' ! (n mod 10)])"

definition showInt :: "int \<Rightarrow> string" where
  "showInt i = (if i < 0 then CHR ''-'' # digits (nat (- i)) else digits (nat i))"

text \<open>
  What a template string makes of a value (\<^verbatim>\<open>ToString\<close>), \<open>None\<close> where the
  conversion throws a \<^verbatim>\<open>TypeError\<close>. An array is the join of its elements with
  commas, \<^verbatim>\<open>null\<close> and \<^verbatim>\<open>undefined\<close> elements giving the empty string. A
  parsed JSON object is \<^verbatim>\<open>[object Object]\<close>, unless it has a property
  \<^verbatim>\<open>toString\<close> of its own: that is not a function, and the conversion throws. A
  number \<open>JNum n\<close> is an integer below \<open>2 ^ 53\<close> in magnitude, printed in decimal.
\<close>

fun joinWith :: "string \<Rightarrow> string list \<Rightarrow> string" where
  "joinWith sep [] = []"
| "joinWith sep [x] = x"
| "joinWith sep (x # y # ys) = x @ sep @ joinWith sep (y # ys)"

fun jsToString :: "jsval \<Rightarrow> string option" where
  "jsToString JNull = Some ''null''"
| "jsToString JUndefined = Some ''undefined''"
| "jsToString (JBool b) = Some (if b then ''true'' else ''false'')"
| "jsToString (JNum n) = Some (showInt n)"
| "jsToString (JStr s) = Some s"
| "jsToString (JArr xs) =
     map_option (joinWith '','')
       (those (map (\<lambda>x. if x = JNull \<or> x = JUndefined then Some [] else jsToString x) xs))"
| "jsToString (JObj kvs) =
     (if map_of kvs ''toString'' \<noteq> None then None else Some ''[object Object]'')"

text \<open>
  The call \<^verbatim>\<open>v.includes(sub)\<close>: the method of a string or of an array; any other value
  has no such method and the call throws a \<^verbatim>\<open>TypeError\<close> (\<open>None\<close>).
\<close>

fun jsIncludes :: "jsval \<Rightarrow> string \<Rightarrow> bool option" where
  "jsIncludes (JStr s) sub = Some (str_includes s sub)"
| "jsIncludes (JArr xs) sub = Some (JStr sub \<in> set xs)"
| "jsIncludes _ sub = None"

text \<open>
  \<^verbatim>\<open>handleErrorResponse\<close>, the message of the error thrown for a response that is
  neither ok nor 503. \<open>errorMessage\<close> is the property \<^verbatim>\<open>message\<close> of the parsed
  body when that is truthy, whatever its type, and the status text otherwise. The
  \<^verbatim>\<open>catch\<close> is taken when the body is not JSON, when it is \<^verbatim>\<open>null\<close>, when
  \<open>errorMessage\<close> cannot be turned into a string, and (outside 503, 403 and 429) when
  it has no method \<^verbatim>\<open>includes\<close>. The redirect to the sign-in page on 403 and the call
  of \<^verbatim>\<open>handleApiError\<close> on 503 leave the client's state as it is.
\<close>

definition handleErrorResponse :: "response \<Rightarrow> string" where
  "handleErrorResponse resp =
     (let fallback =
            (if status resp = 503
             then ''Service temporarily unavailable (503): '' @ statusText resp
             else ''HTTP '' @ showInt (status resp) @ '': '' @ statusText resp)
      in case r_body resp of
           None \<Rightarrow> fallback
         | Some JNull \<Rightarrow> fallback
         | Some JUndefined \<Rightarrow> fallback
         | Some errorData \<Rightarrow>
             (let m = getProp errorData ''message'';
                  errorMessage = (if truthy m then m else JStr (statusText resp))
              in case jsToString errorMessage of
                   None \<Rightarrow> fallback
                 | Some shown \<Rightarrow>
                     if status resp = 503
                     then ''Service temporarily unavailable (503): '' @ shown
                     else if status resp = 403 then ''Authentication required: '' @ shown
                     else if status resp = 429 then ''Rate limited: '' @ shown
                     else (case jsIncludes errorMessage ''Too many requests'' of
                             None \<Rightarrow> fallback
                           | Some True \<Rightarrow> ''Rate limited: '' @ shown
                           | Some False \<Rightarrow>
                               ''HTTP '' @ showInt (status resp) @ '': '' @ shown)))"

text \<open>A settled promise.\<close>

datatype settled = Resolves jsval | Rejects jserror

definition syntaxError :: jserror where
  "syntaxError = (newError ''Unexpected token in JSON'')\<lparr>errClass := SyntaxError\<rparr>"

text \<open>
  The \<^verbatim>\<open>catch\<close> block of \<^verbatim>\<open>executeRequest\<close>. The helpers
  \<^verbatim>\<open>isConnectionError\<close> and \<^verbatim>\<open>is503Error\<close> of \<^verbatim>\<open>util/errorUtils\<close> are
  parameters. In the first branch the argument \<^verbatim>\<open>endpoint\<close> of
  \<^verbatim>\<open>createConnectionError\<close> is not a name in scope of
  \<^verbatim>\<open>executeRequest(url, options, requireAuth)\<close>: evaluating it throws a
  \<^verbatim>\<open>ReferenceError\<close> out of the block, after the global status has been set.
\<close>

definition referenceError :: jserror where
  "referenceError = (newError ''endpoint is not defined'')\<lparr>errClass := ReferenceError\<rparr>"

definition executeRequest_catch ::
  "(jserror \<Rightarrow> bool) \<Rightarrow> (jserror \<Rightarrow> bool) \<Rightarrow> jserror \<Rightarrow> apisw \<Rightarrow> settled \<times> apisw" where
  "executeRequest_catch isConnectionError is503 error s =
     (if isConnectionError error then (Rejects referenceError, setGlobal503Status True s)
      else if is503 error then
        (Resolves (JObj [(''error'', JBool True), (''statusCode'', JNum 503),
                         (''message'', JStr (message error)), (''is503Error'', JBool True),
                         (''isConnectionError'', JBool (isConnectionError_p error))]),
         setGlobal503Status True s)
      else (Rejects error, s))"

text \<open>
  \<^verbatim>\<open>executeRequest\<close> from the point where \<^verbatim>\<open>fetch\<close> settles. The request
  headers (API key, bearer token) have no part in what it returns.
\<close>

definition executeRequest ::
  "(jserror \<Rightarrow> bool) \<Rightarrow> (jserror \<Rightarrow> bool) \<Rightarrow> fetchResult \<Rightarrow> apisw \<Rightarrow> settled \<times> apisw" where
  "executeRequest isConnectionError is503 fr s =
     (case tryFetch fr of
        Inl error \<Rightarrow> executeRequest_catch isConnectionError is503 error s
      | Inr resp \<Rightarrow>
          if ok resp then
            (case r_body resp of
               Some data \<Rightarrow> (Resolves data, s)
             | None \<Rightarrow> executeRequest_catch isConnectionError is503 syntaxError s)
          else if status resp = 503 then
            (case r_body resp of
               Some data \<Rightarrow> (Resolves data, setGlobal503Status True s)
             | None \<Rightarrow>
                 executeRequest_catch isConnectionError is503 syntaxError
                   (setGlobal503Status True s))
          else
            executeRequest_catch isConnectionError is503
              (newError (handleErrorResponse resp)) s)"

text \<open>
  A request that is not retried settles: \<^verbatim>\<open>executeRequest\<close> finishes with what
  \<^verbatim>\<open>fetch\<close> gave, then the \<^verbatim>\<open>finally\<close> callbacks of the two registries run.
\<close>

definition requestSettles ::
  "(jserror \<Rightarrow> bool) \<Rightarrow> (jserror \<Rightarrow> bool) \<Rightarrow> fetchResult \<Rightarrow> string \<Rightarrow> requestInit \<Rightarrow> apisw
     \<Rightarrow> settled \<times> apisw" where
  "requestSettles isConnectionError is503 fr endpoint options s =
     (case executeRequest isConnectionError is503 fr s of
        (res, s') \<Rightarrow>
          (res, removePendingRequest (getRequestKey endpoint options)
                  (forgetPending_g (getRequestKey endpoint options) s')))"

subsection \<open>Response caches\<close>

text \<open>
  \<^verbatim>\<open>HomePageCache\<close> of the home page router: a map from key to data and insertion
  time. Its methods
\<^verbatim>\<open>set\<close>, \<^verbatim>\<open>get\<close> and \<^verbatim>\<open>clear\<close> carry the prefix \<open>cache_\<close>
  here.
\<close>

type_synonym homePageCache = "string \<rightharpoonup> jsval \<times> int"

definition CACHE_DURATION :: int where "CACHE_DURATION = 5 * 60 * 1000"

definition cache_set :: "int \<Rightarrow> string \<Rightarrow> jsval \<Rightarrow> homePageCache \<Rightarrow> homePageCache" where
  "cache_set now key d c = c(key \<mapsto> (d, now))"

definition cache_get :: "int \<Rightarrow> string \<Rightarrow> homePageCache \<Rightarrow> jsval \<times> homePageCache" where
  "cache_get now key c =
     (case c key of
        None \<Rightarrow> (JNull, c)
      | Some (d, timestamp) \<Rightarrow>
          if now - timestamp > CACHE_DURATION then (JNull, c(key := None)) else (d, c))"

definition cache_clear :: "homePageCache \<Rightarrow> homePageCache" where
  "cache_clear c = Map.empty"

definition clearExpired :: "int \<Rightarrow> homePageCache \<Rightarrow> homePageCache" where
  "clearExpired now c =
     (\<lambda>key. case c key of
              None \<Rightarrow> None
            | Some (d, timestamp) \<Rightarrow>
                if now - timestamp > CACHE_DURATION then None else Some (d, timestamp))"

text \<open>The operations a caller can apply to the cache, and what each does to it.\<close>

datatype cacheOp = Set string jsval | Get string | Clear | ClearExpired

fun cacheStep :: "int \<Rightarrow> cacheOp \<Rightarrow> homePageCache \<Rightarrow> homePageCache" where
  "cacheStep now (Set key d) c = cache_set now key d c"
| "cacheStep now (Get key) c = snd (cache_get now key c)"
| "cacheStep now Clear c = cache_clear c"
| "cacheStep now ClearExpired c = clearExpired now c"

text \<open>
  The response cache \<^verbatim>\<open>util/apiCache\<close>, which \<^verbatim>\<open>getLocations\<close> reads and
  writes, is not among the sources. An entry is the value, its insertion time and its time to
  live.
\<close>

type_synonym apiCache = "string \<rightharpoonup> jsval \<times> int \<times> int"

text \<open>
  Modelled from the spec: \<^verbatim>\<open>cacheApiResponse\<close> of \<^verbatim>\<open>util/apiCache\<close>, which is
  missing. The spec: the value carries its own TTL set at insertion time.
\<close>

definition cacheApiResponse :: "int \<Rightarrow> string \<Rightarrow> jsval \<Rightarrow> int \<Rightarrow> apiCache \<Rightarrow> apiCache" where
  "cacheApiResponse now key v ttl c = c(key \<mapsto> (v, now, ttl))"

text \<open>
  Modelled from the spec: \<^verbatim>\<open>getCachedApiResponse\<close> of \<^verbatim>\<open>util/apiCache\<close>, which
  is missing. The spec: read path: if present and \<open>now - insertedAt \<le> ttl\<close>, return the
  cached value and skip the network; otherwise evict and proceed to the network. A miss is
  \<^verbatim>\<open>null\<close>.
\<close>

definition getCachedApiResponse :: "int \<Rightarrow> string \<Rightarrow> apiCache \<Rightarrow> jsval \<times> apiCache" where
  "getCachedApiResponse now key c =
     (case c key of
        None \<Rightarrow> (JNull, c)
      | Some (v, insertedAt, ttl) \<Rightarrow>
          if now - insertedAt \<le> ttl then (v, c) else (JNull, c(key := None)))"

text \<open>
  \<^verbatim>\<open>APIsw.getLocations\<close> up to the point where the request is made: a truthy cached
  value is returned, otherwise the request is made.
\<close>

datatype loaded = FromCache jsval | FromRequest outcome

definition getLocations ::
  "int \<Rightarrow> int \<Rightarrow> probe \<Rightarrow> apiCache \<Rightarrow> apisw \<Rightarrow> loaded \<times> apiCache \<times> apisw" where
  "getLocations now later pr c s =
     (let cached = fst (getCachedApiResponse now ''/v0/locations'' c);
          c' = snd (getCachedApiResponse now ''/v0/locations'' c)
      in if truthy cached then (FromCache cached, c', s)
         else (FromRequest (fst (makeRequest now later pr ''/v0/locations'' noOptions s)), c',
               snd (makeRequest now later pr ''/v0/locations'' noOptions s)))"

text \<open>
  What \<^verbatim>\<open>getLocations\<close> does once the request has resolved with \<open>res\<close>: a truthy
  result is cached for 15 minutes.
\<close>

definition getLocations_resolved :: "int \<Rightarrow> jsval \<Rightarrow> apiCache \<Rightarrow> apiCache" where
  "getLocations_resolved now res c =
     (if truthy res then cacheApiResponse now ''/v0/locations'' res (15 * 60 * 1000) c else c)"

section \<open>Properties\<close>

lemma distinct_uniq: "distinct (uniq seen xs) \<and> set (uniq seen xs) = set xs - set seen"
  by (induction seen xs rule: uniq.induct) auto

lemma distinct_arrayFromSet: "distinct (arrayFromSet xs)"
  by (simp add: arrayFromSet_def distinct_uniq)

lemma set_arrayFromSet: "set (arrayFromSet xs) = set xs"
  by (simp add: arrayFromSet_def distinct_uniq)

subsection \<open>The gates of a call, one at a time\<close>

lemma track_gate_fields [simp]:
  "global503Status (trackApiCall e s) = global503Status s"
  "probes (trackApiCall e s) = probes s"
  "pendingRequests (trackApiCall e s) = pendingRequests s"
  "requestTimeouts (trackApiCall e s) = requestTimeouts s"
  "pendingRequests_g (trackApiCall e s) = pendingRequests_g s"
  "fetched (trackApiCall e s) = fetched s"
  "nextPromise (trackApiCall e s) = nextPromise s"
  "failedEndpoints (trackApiCall e s) = failedEndpoints s"
  "endpointFailureTimes (trackApiCall e s) = endpointFailureTimes s"
  "isApiBlocked (trackApiCall e s) = isApiBlocked s"
  by (simp_all add: trackApiCall_def)

lemma modal_gate_fields [simp]:
  "global503Status (showApiFailureModal now eps f cb s) = global503Status s"
  "probes (showApiFailureModal now eps f cb s) = probes s"
  "pendingRequests (showApiFailureModal now eps f cb s) = pendingRequests s"
  "requestTimeouts (showApiFailureModal now eps f cb s) = requestTimeouts s"
  "pendingRequests_g (showApiFailureModal now eps f cb s) = pendingRequests_g s"
  "fetched (showApiFailureModal now eps f cb s) = fetched s"
  "nextPromise (showApiFailureModal now eps f cb s) = nextPromise s"
  "failedEndpoints (showApiFailureModal now eps f cb s) = failedEndpoints s"
  "endpointFailureTimes (showApiFailureModal now eps f cb s) = endpointFailureTimes s"
  "isApiBlocked (showApiFailureModal now eps f cb s) = isApiBlocked s"
  by (simp_all add: showApiFailureModal_def notifyModalStateListeners_def)

lemma blocked_gate_fields [simp]:
  "global503Status (snd (isGlobalRequestBlocked now s)) = global503Status s"
  "probes (snd (isGlobalRequestBlocked now s)) = probes s"
  "pendingRequests (snd (isGlobalRequestBlocked now s)) = pendingRequests s"
  "requestTimeouts (snd (isGlobalRequestBlocked now s)) = requestTimeouts s"
  "pendingRequests_g (snd (isGlobalRequestBlocked now s)) = pendingRequests_g s"
  "fetched (snd (isGlobalRequestBlocked now s)) = fetched s"
  "nextPromise (snd (isGlobalRequestBlocked now s)) = nextPromise s"
  "failedEndpoints (snd (isGlobalRequestBlocked now s)) = failedEndpoints s"
  "endpointFailureTimes (snd (isGlobalRequestBlocked now s)) = endpointFailureTimes s"
  "isApiBlocked (snd (isGlobalRequestBlocked now s)) = isApiBlocked s"
  by (simp_all add: isGlobalRequestBlocked_def)

lemma tripped_gate_fields [simp]:
  "global503Status (snd (isEndpointInCircuitBreaker now e s)) = global503Status s"
  "probes (snd (isEndpointInCircuitBreaker now e s)) = probes s"
  "pendingRequests (snd (isEndpointInCircuitBreaker now e s)) = pendingRequests s"
  "requestTimeouts (snd (isEndpointInCircuitBreaker now e s)) = requestTimeouts s"
  "pendingRequests_g (snd (isEndpointInCircuitBreaker now e s)) = pendingRequests_g s"
  "fetched (snd (isEndpointInCircuitBreaker now e s)) = fetched s"
  "nextPromise (snd (isEndpointInCircuitBreaker now e s)) = nextPromise s"
  "isApiBlocked (snd (isEndpointInCircuitBreaker now e s)) = isApiBlocked s"
  by (simp_all add: isEndpointInCircuitBreaker_def Let_def)

lemma health_gate_fields [simp]:
  "pendingRequests (snd (checkApiHealth now pr s)) = pendingRequests s"
  "requestTimeouts (snd (checkApiHealth now pr s)) = requestTimeouts s"
  "pendingRequests_g (snd (checkApiHealth now pr s)) = pendingRequests_g s"
  "fetched (snd (checkApiHealth now pr s)) = fetched s"
  "nextPromise (snd (checkApiHealth now pr s)) = nextPromise s"
  "failedEndpoints (snd (checkApiHealth now pr s)) = failedEndpoints s"
  "endpointFailureTimes (snd (checkApiHealth now pr s)) = endpointFailureTimes s"
  "isApiBlocked (snd (checkApiHealth now pr s)) = isApiBlocked s"
  by (simp_all add: checkApiHealth_def setGlobal503Status_def Let_def split: probe.splits)

lemma trip_gate_fields [simp]:
  "pendingRequests (addEndpointToCircuitBreaker t e (activateGlobalRequestBlock t s)) = pendingRequests s"
  "requestTimeouts (addEndpointToCircuitBreaker t e (activateGlobalRequestBlock t s)) = requestTimeouts s"
  "pendingRequests_g (addEndpointToCircuitBreaker t e (activateGlobalRequestBlock t s)) = pendingRequests_g s"
  "fetched (addEndpointToCircuitBreaker t e (activateGlobalRequestBlock t s)) = fetched s"
  "nextPromise (addEndpointToCircuitBreaker t e (activateGlobalRequestBlock t s)) = nextPromise s"
  "failedEndpoints (addEndpointToCircuitBreaker t e (activateGlobalRequestBlock t s)) =
     insert e (failedEndpoints s)"
  "endpointFailureTimes (addEndpointToCircuitBreaker t e (activateGlobalRequestBlock t s)) =
     (endpointFailureTimes s)(e \<mapsto> t)"
  "globalRequestBlocked (addEndpointToCircuitBreaker t e (activateGlobalRequestBlock t s))"
  "globalBlockTime (addEndpointToCircuitBreaker t e (activateGlobalRequestBlock t s)) = t"
  by (simp_all add: addEndpointToCircuitBreaker_def activateGlobalRequestBlock_def)

lemma pastBreaker_fields [simp]:
  "global503Status (pastBreaker now e s) = global503Status s"
  "probes (pastBreaker now e s) = probes s"
  "pendingRequests (pastBreaker now e s) = pendingRequests s"
  "requestTimeouts (pastBreaker now e s) = requestTimeouts s"
  "pendingRequests_g (pastBreaker now e s) = pendingRequests_g s"
  "fetched (pastBreaker now e s) = fetched s"
  "nextPromise (pastBreaker now e s) = nextPromise s"
  "isApiBlocked (pastBreaker now e s) = isApiBlocked s"
  by (simp_all add: pastBreaker_def)

lemma fst_blocked_track [simp]:
  "fst (isGlobalRequestBlocked now (trackApiCall e s)) = fst (isGlobalRequestBlocked now s)"
  by (simp add: isGlobalRequestBlocked_def trackApiCall_def)

lemma fst_tripped_track [simp]:
  "fst (isEndpointInCircuitBreaker now e (snd (isGlobalRequestBlocked now (trackApiCall e' s)))) =
   fst (isEndpointInCircuitBreaker now e s)"
  by (simp add: isGlobalRequestBlocked_def isEndpointInCircuitBreaker_def trackApiCall_def Let_def)


text \<open>What \<^verbatim>\<open>makeRequestInternal\<close> returns at each gate, in the order of the code.\<close>

lemma mri_global503:
  "global503Status s \<Longrightarrow>
   makeRequestInternal now later pr endpoint options s =
     (Rejected globallyUnavailable,
      showApiFailureModal now [endpoint] True None (trackApiCall endpoint s))"
  by (simp add: makeRequestInternal_def isApiGlobally503_def Let_def)

lemma mri_joined:
  "\<not> global503Status s \<Longrightarrow> pendingRequests s (getRequestKey endpoint options) = Some p \<Longrightarrow>
   makeRequestInternal now later pr endpoint options s = (Joined p, trackApiCall endpoint s)"
  by (simp add: makeRequestInternal_def isApiGlobally503_def Let_def)

lemma mri_globalBlock:
  "\<not> global503Status s \<Longrightarrow> pendingRequests s (getRequestKey endpoint options) = None \<Longrightarrow>
   endpoint \<noteq> ''/v0/health'' \<Longrightarrow> fst (isGlobalRequestBlocked now s) \<Longrightarrow>
   makeRequestInternal now later pr endpoint options s =
     (Rejected globalBlockError,
      showApiFailureModal now [endpoint] True None
        (snd (isGlobalRequestBlocked now (trackApiCall endpoint s))))"
  by (simp add: makeRequestInternal_def isApiGlobally503_def Let_def)

lemma mri_breaker:
  "\<not> global503Status s \<Longrightarrow> pendingRequests s (getRequestKey endpoint options) = None \<Longrightarrow>
   endpoint \<noteq> ''/v0/health'' \<Longrightarrow> \<not> fst (isGlobalRequestBlocked now s) \<Longrightarrow>
   fst (isEndpointInCircuitBreaker now endpoint s) \<Longrightarrow>
   makeRequestInternal now later pr endpoint options s =
     (Rejected (circuitBreakerError endpoint),
      showApiFailureModal now [endpoint] True None (pastBreaker now endpoint s))"
  by (simp add: makeRequestInternal_def pastBreaker_def isApiGlobally503_def Let_def)

lemma mri_consent:
  "\<not> global503Status s \<Longrightarrow> pendingRequests s (getRequestKey endpoint options) = None \<Longrightarrow>
   endpoint \<noteq> ''/v0/health'' \<Longrightarrow> \<not> fst (isGlobalRequestBlocked now s) \<Longrightarrow>
   \<not> fst (isEndpointInCircuitBreaker now endpoint s) \<Longrightarrow> isApiBlocked s \<Longrightarrow>
   makeRequestInternal now later pr endpoint options s =
     (Rejected consentError, pastBreaker now endpoint s)"
  by (simp add: makeRequestInternal_def pastBreaker_def isApiGlobally503_def
        checkConsentMiddleware_def Let_def)

lemma mri_health:
  "\<not> global503Status s \<Longrightarrow> pendingRequests s (getRequestKey endpoint options) = None \<Longrightarrow>
   endpoint \<noteq> ''/v0/health'' \<Longrightarrow> \<not> fst (isGlobalRequestBlocked now s) \<Longrightarrow>
   \<not> fst (isEndpointInCircuitBreaker now endpoint s) \<Longrightarrow> \<not> isApiBlocked s \<Longrightarrow>
   \<not> fst (checkApiHealth now pr (pastBreaker now endpoint s)) \<Longrightarrow>
   makeRequestInternal now later pr endpoint options s =
     (Rejected healthCheckFailed,
      showApiFailureModal later [endpoint] True None
        (addEndpointToCircuitBreaker later endpoint
           (activateGlobalRequestBlock later
              (snd (checkApiHealth now pr (pastBreaker now endpoint s))))))"
  by (simp add: makeRequestInternal_def pastBreaker_def isApiGlobally503_def
        checkConsentMiddleware_def Let_def)

lemma mri_issued:
  "\<not> global503Status s \<Longrightarrow> pendingRequests s (getRequestKey endpoint options) = None \<Longrightarrow>
   endpoint \<noteq> ''/v0/health'' \<Longrightarrow> \<not> fst (isGlobalRequestBlocked now s) \<Longrightarrow>
   \<not> fst (isEndpointInCircuitBreaker now endpoint s) \<Longrightarrow> \<not> isApiBlocked s \<Longrightarrow>
   fst (checkApiHealth now pr (pastBreaker now endpoint s)) \<Longrightarrow>
   s5 = snd (executeRequestWithDeduplication later endpoint options
               (snd (checkApiHealth now pr (pastBreaker now endpoint s)))) \<Longrightarrow>
   makeRequestInternal now later pr endpoint options s =
     (Issued (nextPromise s5),
      addPendingRequest later (getRequestKey endpoint options) (nextPromise s5)
        (s5\<lparr>nextPromise := Suc (nextPromise s5)\<rparr>))"
  by (simp add: makeRequestInternal_def pastBreaker_def isApiGlobally503_def
        checkConsentMiddleware_def Let_def)

lemma mri_health_endpoint:
  "\<not> global503Status s \<Longrightarrow> pendingRequests s (getRequestKey ''/v0/health'' options) = None \<Longrightarrow>
   s5 = snd (executeRequestWithDeduplication now ''/v0/health'' options
               (trackApiCall ''/v0/health'' s)) \<Longrightarrow>
   makeRequestInternal now later pr ''/v0/health'' options s =
     (Issued (nextPromise s5),
      addPendingRequest now (getRequestKey ''/v0/health'' options) (nextPromise s5)
        (s5\<lparr>nextPromise := Suc (nextPromise s5)\<rparr>))"
  by (simp add: makeRequestInternal_def Let_def isApiGlobally503_def)

text \<open>The same for \<^verbatim>\<open>makePublicRequestInternal\<close>.\<close>

lemma mpri_global503:
  "global503Status s \<Longrightarrow>
   makePublicRequestInternal now later pr endpoint options s =
     (Rejected globallyUnavailable,
      showApiFailureModal now [endpoint] True None (trackApiCall endpoint s))"
  by (simp add: makePublicRequestInternal_def isApiGlobally503_def Let_def)

lemma mpri_joined:
  "\<not> global503Status s \<Longrightarrow> pendingRequests s (getRequestKey endpoint options) = Some p \<Longrightarrow>
   makePublicRequestInternal now later pr endpoint options s = (Joined p, trackApiCall endpoint s)"
  by (simp add: makePublicRequestInternal_def isApiGlobally503_def Let_def)

lemma mpri_globalBlock:
  "\<not> global503Status s \<Longrightarrow> pendingRequests s (getRequestKey endpoint options) = None \<Longrightarrow>
   endpoint \<noteq> ''/v0/health'' \<Longrightarrow> fst (isGlobalRequestBlocked now s) \<Longrightarrow>
   makePublicRequestInternal now later pr endpoint options s =
     (Rejected globalBlockError, snd (isGlobalRequestBlocked now (trackApiCall endpoint s)))"
  by (simp add: makePublicRequestInternal_def isApiGlobally503_def Let_def)

lemma mpri_breaker:
  "\<not> global503Status s \<Longrightarrow> pendingRequests s (getRequestKey endpoint options) = None \<Longrightarrow>
   endpoint \<noteq> ''/v0/health'' \<Longrightarrow> \<not> fst (isGlobalRequestBlocked now s) \<Longrightarrow>
   fst (isEndpointInCircuitBreaker now endpoint s) \<Longrightarrow>
   makePublicRequestInternal now later pr endpoint options s =
     (Rejected (circuitBreakerError endpoint), pastBreaker now endpoint s)"
  by (simp add: makePublicRequestInternal_def pastBreaker_def isApiGlobally503_def Let_def)

lemma mpri_consent:
  "\<not> global503Status s \<Longrightarrow> pendingRequests s (getRequestKey endpoint options) = None \<Longrightarrow>
   endpoint \<noteq> ''/v0/health'' \<Longrightarrow> \<not> fst (isGlobalRequestBlocked now s) \<Longrightarrow>
   \<not> fst (isEndpointInCircuitBreaker now endpoint s) \<Longrightarrow> isApiBlocked s \<Longrightarrow>
   makePublicRequestInternal now later pr endpoint options s =
     (Rejected consentError, pastBreaker now endpoint s)"
  by (simp add: makePublicRequestInternal_def pastBreaker_def isApiGlobally503_def
        checkConsentMiddleware_def Let_def)

lemma mpri_health:
  "\<not> global503Status s \<Longrightarrow> pendingRequests s (getRequestKey endpoint options) = None \<Longrightarrow>
   endpoint \<noteq> ''/v0/health'' \<Longrightarrow> \<not> fst (isGlobalRequestBlocked now s) \<Longrightarrow>
   \<not> fst (isEndpointInCircuitBreaker now endpoint s) \<Longrightarrow> \<not> isApiBlocked s \<Longrightarrow>
   \<not> fst (checkApiHealth now pr (pastBreaker now endpoint s)) \<Longrightarrow>
   makePublicRequestInternal now later pr endpoint options s =
     (Rejected healthCheckFailed,
      showApiFailureModal later [endpoint] True None
        (addEndpointToCircuitBreaker later endpoint
           (activateGlobalRequestBlock later
              (snd (checkApiHealth now pr (pastBreaker now endpoint s))))))"
  by (simp add: makePublicRequestInternal_def pastBreaker_def isApiGlobally503_def
        checkConsentMiddleware_def Let_def)

lemma mpri_issued:
  "\<not> global503Status s \<Longrightarrow> pendingRequests s (getRequestKey endpoint options) = None \<Longrightarrow>
   endpoint \<noteq> ''/v0/health'' \<Longrightarrow> \<not> fst (isGlobalRequestBlocked now s) \<Longrightarrow>
   \<not> fst (isEndpointInCircuitBreaker now endpoint s) \<Longrightarrow> \<not> isApiBlocked s \<Longrightarrow>
   fst (checkApiHealth now pr (pastBreaker now endpoint s)) \<Longrightarrow>
   s4 = snd (checkApiHealth now pr (pastBreaker now endpoint s)) \<Longrightarrow>
   makePublicRequestInternal now later pr endpoint options s =
     (Issued (nextPromise s4),
      addPendingRequest later (getRequestKey endpoint options) (nextPromise s4)
        (s4\<lparr>nextPromise := Suc (nextPromise s4), fetched := fetched s4 @ [endpoint]\<rparr>))"
  by (simp add: makePublicRequestInternal_def pastBreaker_def isApiGlobally503_def
        checkConsentMiddleware_def Let_def)

lemma mpri_health_endpoint:
  "\<not> global503Status s \<Longrightarrow> pendingRequests s (getRequestKey ''/v0/health'' options) = None \<Longrightarrow>
   s1 = trackApiCall ''/v0/health'' s \<Longrightarrow>
   makePublicRequestInternal now later pr ''/v0/health'' options s =
     (Issued (nextPromise s1),
      addPendingRequest now (getRequestKey ''/v0/health'' options) (nextPromise s1)
        (s1\<lparr>nextPromise := Suc (nextPromise s1), fetched := fetched s1 @ [''/v0/health'']\<rparr>))"
  by (simp add: makePublicRequestInternal_def Let_def isApiGlobally503_def)

lemma public_same_verdict:
  "rejection (fst (makePublicRequestInternal now later pr endpoint options s)) =
     rejection (fst (makeRequestInternal now later pr endpoint options s)) \<and>
   isIssued (fst (makePublicRequestInternal now later pr endpoint options s)) =
     isIssued (fst (makeRequestInternal now later pr endpoint options s))"
proof (cases "global503Status s")
  case True
  then show ?thesis by (simp add: mri_global503 mpri_global503)
next
  case g: False
  show ?thesis
  proof (cases "pendingRequests s (getRequestKey endpoint options)")
    case (Some p)
    with g show ?thesis by (simp add: mri_joined mpri_joined)
  next
    case np: None
    show ?thesis
    proof (cases "endpoint = ''/v0/health''")
      case True
      with g np show ?thesis by (simp add: mri_health_endpoint mpri_health_endpoint)
    next
      case ep: False
      show ?thesis
      proof (cases "fst (isGlobalRequestBlocked now s)")
        case True
        with g np ep show ?thesis by (simp add: mri_globalBlock mpri_globalBlock)
      next
        case nb: False
        show ?thesis
        proof (cases "fst (isEndpointInCircuitBreaker now endpoint s)")
          case True
          with g np ep nb show ?thesis by (simp add: mri_breaker mpri_breaker)
        next
          case nt: False
          show ?thesis
          proof (cases "isApiBlocked s")
            case True
            with g np ep nb nt show ?thesis by (simp add: mri_consent mpri_consent)
          next
            case nc: False
            show ?thesis
            proof (cases "fst (checkApiHealth now pr (pastBreaker now endpoint s))")
              case True
              with g np ep nb nt nc show ?thesis by (simp add: mri_issued mpri_issued)
            next
              case False
              with g np ep nb nt nc show ?thesis by (simp add: mri_health mpri_health)
            qed
          qed
        qed
      qed
    qed
  qed
qed


lemma pipeline_gate_fields [simp]:
  "pendingRequests (snd (executeRequestWithDeduplication t e opts s)) = pendingRequests s"
  "requestTimeouts (snd (executeRequestWithDeduplication t e opts s)) = requestTimeouts s"
  "failedEndpoints (snd (executeRequestWithDeduplication t e opts s)) = failedEndpoints s"
  "endpointFailureTimes (snd (executeRequestWithDeduplication t e opts s)) = endpointFailureTimes s"
  by (simp_all add: executeRequestWithDeduplication_def shouldThrottleRequest_def
        resumeAfterThrottle_def trackApiCall_def Let_def split: option.splits)

lemma register_gate_fields [simp]:
  "pendingRequests (addPendingRequest t k p s) = (pendingRequests s)(k \<mapsto> p)"
  "requestTimeouts (addPendingRequest t k p s) = (requestTimeouts s)(k \<mapsto> t + 30000)"
  "failedEndpoints (addPendingRequest t k p s) = failedEndpoints s"
  "endpointFailureTimes (addPendingRequest t k p s) = endpointFailureTimes s"
  "fetched (addPendingRequest t k p s) = fetched s"
  by (simp_all add: addPendingRequest_def)


subsection \<open>What the request pipeline and a settled request leave alone\<close>

lemma gate_timestamps [simp]:
  "requestTimestamps (trackApiCall e s) = requestTimestamps s"
  "requestTimestamps (showApiFailureModal now eps f cb s) = requestTimestamps s"
  "requestTimestamps (snd (isGlobalRequestBlocked now s)) = requestTimestamps s"
  "requestTimestamps (snd (isEndpointInCircuitBreaker now e s)) = requestTimestamps s"
  "requestTimestamps (snd (checkApiHealth now pr s)) = requestTimestamps s"
  "requestTimestamps (pastBreaker now e s) = requestTimestamps s"
  by (simp_all add: trackApiCall_def showApiFailureModal_def notifyModalStateListeners_def
        isGlobalRequestBlocked_def isEndpointInCircuitBreaker_def checkApiHealth_def
        setGlobal503Status_def pastBreaker_def Let_def split: probe.splits)



lemma executeRequest_breaker [simp]:
  "failedEndpoints (snd (executeRequest c f fr s)) = failedEndpoints s"
  "endpointFailureTimes (snd (executeRequest c f fr s)) = endpointFailureTimes s"
  by (simp_all add: executeRequest_def executeRequest_catch_def setGlobal503Status_def
        split: sum.splits option.splits)

lemma requestSettles_breaker [simp]:
  "failedEndpoints (snd (requestSettles c f fr e opts s)) = failedEndpoints s"
  "endpointFailureTimes (snd (requestSettles c f fr e opts s)) = endpointFailureTimes s"
  by (simp_all add: requestSettles_def removePendingRequest_def forgetPending_g_def
        split: prod.splits)
     (metis executeRequest_breaker snd_conv)+

lemma timer_breaker [simp]:
  "failedEndpoints (runTimer now k s) = failedEndpoints s"
  "endpointFailureTimes (runTimer now k s) = endpointFailureTimes s"
  "failedEndpoints (pendingTimeoutFires k s) = failedEndpoints s"
  "endpointFailureTimes (pendingTimeoutFires k s) = endpointFailureTimes s"
  "failedEndpoints (snd (resumeAfterThrottle e opts s)) = failedEndpoints s"
  "endpointFailureTimes (snd (resumeAfterThrottle e opts s)) = endpointFailureTimes s"
  by (simp_all add: runTimer_def pendingTimeoutFires_def resumeAfterThrottle_def Let_def)


subsection \<open>Request identity, settlement and the safety timer\<close>




lemma executeRequest_registry [simp]:
  "pendingRequests (snd (executeRequest c f fr s)) = pendingRequests s"
  "requestTimeouts (snd (executeRequest c f fr s)) = requestTimeouts s"
  "pendingRequests_g (snd (executeRequest c f fr s)) = pendingRequests_g s"
  "fetched (snd (executeRequest c f fr s)) = fetched s"
  by (simp_all add: executeRequest_def executeRequest_catch_def setGlobal503Status_def
        split: sum.splits option.splits)




subsection \<open>The message of the error for a response that is not ok\<close>

lemma handleErrorResponse_message:
  "r_body r = Some (JObj kvs) \<Longrightarrow> map_of kvs ''message'' = Some v \<Longrightarrow> truthy v \<Longrightarrow>
   jsToString v = Some shown \<Longrightarrow>
   handleErrorResponse r =
     (if status r = 503 then ''Service temporarily unavailable (503): '' @ shown
      else if status r = 403 then ''Authentication required: '' @ shown
      else if status r = 429 then ''Rate limited: '' @ shown
      else case jsIncludes v ''Too many requests'' of
             None \<Rightarrow> ''HTTP '' @ showInt (status r) @ '': '' @ statusText r
           | Some True \<Rightarrow> ''Rate limited: '' @ shown
           | Some False \<Rightarrow> ''HTTP '' @ showInt (status r) @ '': '' @ shown)"
  by (simp add: handleErrorResponse_def Let_def)

lemma handleErrorResponse_no_json:
  "r_body r = None \<Longrightarrow>
   handleErrorResponse r =
     (if status r = 503 then ''Service temporarily unavailable (503): '' @ statusText r
      else ''HTTP '' @ showInt (status r) @ '': '' @ statusText r)"
  by (simp add: handleErrorResponse_def Let_def)

subsection \<open>The two steps of a call make up the call\<close>

lemma checkApiHealth_steps:
  "checkApiHealth now pr s =
     (case checkApiHealth_begin now s of
        (Some b, s1) \<Rightarrow> (b, s1)
      | (None, s1) \<Rightarrow> checkApiHealth_end pr s1)"
  by (simp add: checkApiHealth_def checkApiHealth_begin_def checkApiHealth_end_def Let_def
        split: probe.splits)

lemma makeRequestInternal_steps:
  "makeRequestInternal now later pr endpoint options s =
     (case makeRequestInternal_begin now endpoint options s of
        (Settled out, s') \<Rightarrow> (out, s')
      | (AwaitsHealth (Some b), s') \<Rightarrow> makeRequestInternal_resume later b endpoint options s'
      | (AwaitsHealth None, s') \<Rightarrow>
          makeRequestInternal_resume later (fst (checkApiHealth_end pr s')) endpoint options
            (snd (checkApiHealth_end pr s')))"
  by (simp add: makeRequestInternal_def makeRequestInternal_begin_def
        makeRequestInternal_resume_def checkApiHealth_steps Let_def
        split: option.splits prod.splits)

subsection \<open>The retry loop, unfolded\<close>

lemma retryLoop_unfold:
  "retryLoop fn c random fl maxRetries attempt le ds =
     (if int attempt \<le> maxRetries then
        (case fn attempt of
           Inr v \<Rightarrow> \<lparr> result = Inr v, attempts = Suc attempt, delays = ds \<rparr>
         | Inl error \<Rightarrow>
             if \<not> isRetryableError c error \<or> int attempt = maxRetries
             then \<lparr> result = Inl error, attempts = Suc attempt, delays = ds \<rparr>
             else retryLoop fn c random fl maxRetries (Suc attempt) (Some error)
                    (ds @ [min (fl (baseDelay * 2 ^ attempt + fl (random attempt * 1000)))
                             maxDelay]))
      else \<lparr> result = Inl (case le of None \<Rightarrow> undefinedThrown | Some e \<Rightarrow> e),
             attempts = attempt, delays = ds \<rparr>)"
  by (subst retryLoop.simps) (simp add: Let_def split: sum.splits)

lemma retryLoop_until:
  "attempt \<le> k \<Longrightarrow> k \<le> m \<Longrightarrow>
   (\<forall>n. attempt \<le> n \<and> n < k \<longrightarrow> (\<exists>e. fn n = Inl e \<and> isRetryableError c e)) \<Longrightarrow>
   (k < m \<longrightarrow> (\<exists>e. fn k = Inl e \<and> \<not> isRetryableError c e) \<or> (\<exists>v. fn k = Inr v)) \<Longrightarrow>
   retryLoop fn c random fl (int m) attempt le ds =
     \<lparr> result = fn k, attempts = Suc k,
       delays = ds @ map (backoff random fl) [attempt..<k] \<rparr>"
proof (induction "k - attempt" arbitrary: attempt le ds)
  case 0
  then have eq: "attempt = k" by simp
  show ?case
  proof (cases "fn k")
    case (Inr v)
    with 0 eq show ?thesis by (subst retryLoop_unfold) simp
  next
    case (Inl e)
    with 0 eq show ?thesis by (subst retryLoop_unfold) auto
  qed
next
  case (Suc d)
  then have lt: "attempt < k" by simp
  with Suc.prems obtain e where e: "fn attempt = Inl e" "isRetryableError c e" by blast
  have step: "retryLoop fn c random fl (int m) attempt le ds =
      retryLoop fn c random fl (int m) (Suc attempt) (Some e) (ds @ [backoff random fl attempt])"
    using e lt Suc.prems(2) by (subst retryLoop_unfold) (simp add: backoff_def)
  have "retryLoop fn c random fl (int m) (Suc attempt) (Some e) (ds @ [backoff random fl attempt]) =
      \<lparr> result = fn k, attempts = Suc k,
        delays = (ds @ [backoff random fl attempt]) @ map (backoff random fl) [Suc attempt..<k] \<rparr>"
    using Suc.hyps(2) lt Suc.prems by (intro Suc.hyps(1)) auto
  with step lt show ?case by (simp add: upt_conv_Cons)
qed

text \<open>
  What the bounds of a delay need of the rounding: it is monotone, exact on the integers up
  to \<open>2 ^ 53\<close>, and takes nothing below the midpoint of 1000 and the double before it
  up to 1000. Rounding to the nearest double has these properties.
\<close>

lemma backoff_bounds:
  assumes r: "0 \<le> r" "r \<le> 1 - 1 / 2 ^ 53"
    and m: "mono fl"
    and ex: "\<forall>k::nat. k \<le> 2 ^ 53 \<longrightarrow> fl (real k) = real k"
    and st: "\<forall>x. x < 1000 - 1 / 2 ^ 44 \<longrightarrow> fl x < 1000"
    and i: "i < (3::nat)"
  shows "0 \<le> fl (r * 1000)" and "fl (r * 1000) < 1000"
    and "1000 * 2 ^ i \<le> fl (1000 * 2 ^ i + fl (r * 1000))"
    and "fl (1000 * 2 ^ i + fl (r * 1000)) \<le> 1000 * 2 ^ i + 1000"
proof -
  from ex have "(0::nat) \<le> 2 ^ 53 \<longrightarrow> fl (real 0) = real 0" by (rule spec)
  then have z: "fl 0 = 0" by simp
  from r have "0 \<le> r * 1000" by simp
  with m have "fl 0 \<le> fl (r * 1000)" by (rule monoD)
  with z show lo: "0 \<le> fl (r * 1000)" by simp
  have "(1000::real) / 2 ^ 53 > 1 / 2 ^ 44" by simp
  moreover from r have "r * 1000 \<le> 1000 - 1000 / 2 ^ 53" by simp
  ultimately have "r * 1000 < 1000 - 1 / 2 ^ 44" by linarith
  with st show hi: "fl (r * 1000) < 1000" by blast
  from i have p: "(2::nat) ^ i \<le> 4"
    using power_increasing [of i 2 "2::nat"] by simp
  then have small: "1000 * 2 ^ i \<le> (2::nat) ^ 53" "1000 * 2 ^ i + 1000 \<le> (2::nat) ^ 53"
    by simp_all
  from ex small(1) have "fl (real (1000 * 2 ^ i)) = real (1000 * 2 ^ i)" by blast
  then have e1: "fl (1000 * 2 ^ i) = 1000 * 2 ^ i" by simp
  from ex small(2) have "fl (real (1000 * 2 ^ i + 1000)) = real (1000 * 2 ^ i + 1000)" by blast
  then have e2: "fl (1000 * 2 ^ i + 1000) = 1000 * 2 ^ i + 1000" by simp
  from lo have "(1000::real) * 2 ^ i \<le> 1000 * 2 ^ i + fl (r * 1000)" by simp
  with m have "fl (1000 * 2 ^ i) \<le> fl (1000 * 2 ^ i + fl (r * 1000))" by (rule monoD)
  with e1 show "1000 * 2 ^ i \<le> fl (1000 * 2 ^ i + fl (r * 1000))" by simp
  from hi have "1000 * 2 ^ i + fl (r * 1000) \<le> (1000::real) * 2 ^ i + 1000" by simp
  with m have "fl (1000 * 2 ^ i + fl (r * 1000)) \<le> fl (1000 * 2 ^ i + 1000)" by (rule monoD)
  with e2 show "fl (1000 * 2 ^ i + fl (r * 1000)) \<le> 1000 * 2 ^ i + 1000" by simp
qed

subsection \<open>Failure notifier: one notification, cooldown\<close>

text \<open>
  Claim C8. A show request leaves the state as it is while a notification is visible, and
  also when it arrives less than \<open>modalCooldown\<close> (5000 ms) after the last notification was
  shown. A request that arrives with no notification visible and the cooldown over makes a
  notification visible whose list of failed endpoints has no duplicates and holds exactly the
  endpoints given, and records the time as the last time shown.
\<close>

theorem showApiFailureModal_one_at_a_time:
  "(isVisible (modalState s) \<longrightarrow> showApiFailureModal now eps f cb s = s) \<and>
   (now - lastModalShowTime s < modalCooldown \<longrightarrow> showApiFailureModal now eps f cb s = s) \<and>
   (\<not> isVisible (modalState s) \<and> modalCooldown \<le> now - lastModalShowTime s \<longrightarrow>
      modalState (showApiFailureModal now eps f cb s) =
        \<lparr> isVisible = True, failedEndpoints_m = arrayFromSet eps, is503Error_m = f, onClose = cb \<rparr> \<and>
      distinct (failedEndpoints_m (modalState (showApiFailureModal now eps f cb s))) \<and>
      set (failedEndpoints_m (modalState (showApiFailureModal now eps f cb s))) = set eps \<and>
      lastModalShowTime (showApiFailureModal now eps f cb s) = now)"
  by (simp add: showApiFailureModal_def notifyModalStateListeners_def
        distinct_arrayFromSet set_arrayFromSet)

text \<open>
  A notification is shown for three endpoints of which two are equal; a request one second
  later changes nothing; after the notification is hidden a request 4999 ms after the first
  still changes nothing, and one 5000 ms after it is shown.
\<close>

theorem showApiFailureModal_one_at_a_time_witness:
  "modalCooldown = 5000 \<and>
   modalState (showApiFailureModal 1700000000000 [''/v0/services'', ''/v0/nav'', ''/v0/services''] True None initial) =
     \<lparr> isVisible = True, failedEndpoints_m = [''/v0/services'', ''/v0/nav''], is503Error_m = True, onClose = None \<rparr> \<and>
   showApiFailureModal 1700000001000 [''/v0/about''] True None
     (showApiFailureModal 1700000000000 [''/v0/services'', ''/v0/nav'', ''/v0/services''] True None initial) =
     showApiFailureModal 1700000000000 [''/v0/services'', ''/v0/nav'', ''/v0/services''] True None initial \<and>
   showApiFailureModal 1700000004999 [''/v0/about''] True None
     (hideApiFailureModal (showApiFailureModal 1700000000000 [''/v0/services'', ''/v0/nav'', ''/v0/services''] True None initial)) =
     hideApiFailureModal (showApiFailureModal 1700000000000 [''/v0/services'', ''/v0/nav'', ''/v0/services''] True None initial) \<and>
   failedEndpoints_m (modalState (showApiFailureModal 1700000005000 [''/v0/about''] False None
     (hideApiFailureModal (showApiFailureModal 1700000000000 [''/v0/services'', ''/v0/nav'', ''/v0/services''] True None initial)))) =
     [''/v0/about'']"
  using showApiFailureModal_one_at_a_time [of initial 1700000000000 "[''/v0/services'', ''/v0/nav'', ''/v0/services'']" True None]
    showApiFailureModal_one_at_a_time [of "showApiFailureModal 1700000000000 [''/v0/services'', ''/v0/nav'', ''/v0/services''] True None initial" 1700000001000 "[''/v0/about'']" True None]
    showApiFailureModal_one_at_a_time [of "hideApiFailureModal (showApiFailureModal 1700000000000 [''/v0/services'', ''/v0/nav'', ''/v0/services''] True None initial)" 1700000004999 "[''/v0/about'']" True None]
    showApiFailureModal_one_at_a_time [of "hideApiFailureModal (showApiFailureModal 1700000000000 [''/v0/services'', ''/v0/nav'', ''/v0/services''] True None initial)" 1700000005000 "[''/v0/about'']" False None]
  by (simp add: initial_def modalCooldown_def arrayFromSet_def showApiFailureModal_def
        hideApiFailureModal_def notifyModalStateListeners_def)

subsection \<open>JWT manager: no expired token\<close>

text \<open>
  Claim C10. Whenever the stored token's \<open>expiresAt\<close> is earlier than the current time,
  \<open>getToken\<close> returns no token, \<open>getAuthHeaders\<close> no header and \<open>isAuthenticated\<close>
  false, and each of them clears the token from memory and removes the item from local
  storage (where the browser has one). Conversely a token that \<open>getToken\<close> does return is
  the stored one and has not expired. This is a property of every call, whatever state the
  manager is in.
\<close>

theorem getToken_never_expired:
  "((case jwt_token m of None \<Rightarrow> False | Some t \<Rightarrow> expiresAt t < now) \<longrightarrow>
      fst (getToken now m) = None \<and>
      fst (getAuthHeaders now m) = [] \<and>
      fst (isAuthenticated now m) = False \<and>
      snd (getToken now m) = clearToken m \<and>
      snd (getAuthHeaders now m) = clearToken m \<and>
      snd (isAuthenticated now m) = clearToken m \<and>
      jwt_token (clearToken m) = None \<and>
      (case localStorage (clearToken m) of
         None \<Rightarrow> localStorage m = None
       | Some st \<Rightarrow> st ''packmovego_jwt_token'' = None)) \<and>
   (\<forall>tok. fst (getToken now m) = Some tok \<longrightarrow>
      (\<exists>t. jwt_token m = Some t \<and> token t = tok \<and> now \<le> expiresAt t))"
  by (auto simp add: getToken_def getAuthHeaders_def isAuthenticated_def clearToken_def
           split: option.splits if_splits)

text \<open>
  A token expiring at 1999 is refused and cleared at time 2000, and returned at time 1999.
\<close>

theorem getToken_never_expired_witness:
  "fst (getToken 2000
      \<lparr> jwt_token = Some \<lparr> token = ''abc'', expiresAt = 1999 \<rparr>,
        localStorage = Some [''packmovego_jwt_token'' \<mapsto> Serialized \<lparr> token = ''abc'', expiresAt = 1999 \<rparr>] \<rparr>) = None \<and>
   snd (getToken 2000
      \<lparr> jwt_token = Some \<lparr> token = ''abc'', expiresAt = 1999 \<rparr>,
        localStorage = Some [''packmovego_jwt_token'' \<mapsto> Serialized \<lparr> token = ''abc'', expiresAt = 1999 \<rparr>] \<rparr>) =
     \<lparr> jwt_token = None, localStorage = Some Map.empty \<rparr> \<and>
   fst (getToken 1999
      \<lparr> jwt_token = Some \<lparr> token = ''abc'', expiresAt = 1999 \<rparr>,
        localStorage = Some [''packmovego_jwt_token'' \<mapsto> Serialized \<lparr> token = ''abc'', expiresAt = 1999 \<rparr>] \<rparr>) = Some ''abc''"
  using getToken_never_expired [where now = 2000 and m =
      "\<lparr> jwt_token = Some \<lparr> token = ''abc'', expiresAt = 1999 \<rparr>,
        localStorage = Some [''packmovego_jwt_token'' \<mapsto> Serialized \<lparr> token = ''abc'', expiresAt = 1999 \<rparr>] \<rparr>"]
    getToken_never_expired [where now = 1999 and m =
      "\<lparr> jwt_token = Some \<lparr> token = ''abc'', expiresAt = 1999 \<rparr>,
        localStorage = Some [''packmovego_jwt_token'' \<mapsto> Serialized \<lparr> token = ''abc'', expiresAt = 1999 \<rparr>] \<rparr>"]
  by (simp add: getToken_def clearToken_def)

subsection \<open>A pending identical request is joined before every gate but the first\<close>

text \<open>
  Claim C9. When global 503 status is set the call is rejected whatever the registry holds.
  Otherwise, when the registry holds a promise for the call's request identity,
  \<open>makeRequestInternal\<close> returns that promise and changes nothing but the list of
  tracked calls: whether a global block is active, the endpoint's breaker is open, consent is
  missing or the API is known to be down plays no part. In particular the call still returns
  the registered promise after consent has been revoked with \<open>setApiBlocked True\<close>.
\<close>

theorem pending_request_bypasses_gates:
  "(global503Status s \<longrightarrow>
      fst (makeRequestInternal now later pr endpoint options s) = Rejected globallyUnavailable) \<and>
   (\<not> global503Status s \<and> pendingRequests s (getRequestKey endpoint options) = Some p \<longrightarrow>
      makeRequestInternal now later pr endpoint options s = (Joined p, trackApiCall endpoint s) \<and>
      fst (makeRequestInternal now later pr endpoint options (setApiBlocked True s)) = Joined p)"
proof (intro conjI impI)
  assume "global503Status s"
  then show "fst (makeRequestInternal now later pr endpoint options s) = Rejected globallyUnavailable"
    by (simp add: mri_global503)
next
  assume a: "\<not> global503Status s \<and> pendingRequests s (getRequestKey endpoint options) = Some p"
  then show "makeRequestInternal now later pr endpoint options s = (Joined p, trackApiCall endpoint s)"
    by (simp add: mri_joined)
  from a have "\<not> global503Status (setApiBlocked True s)"
    and "pendingRequests (setApiBlocked True s) (getRequestKey endpoint options) = Some p"
    by (simp_all add: setApiBlocked_def)
  then show "fst (makeRequestInternal now later pr endpoint options (setApiBlocked True s)) = Joined p"
    by (simp add: mri_joined)
qed

text \<open>
  Consent is missing, a global block and the endpoint's breaker are active and the API is
  marked down: the call for which promise 7 is registered gets promise 7.
\<close>

theorem pending_request_bypasses_gates_witness:
  "fst (makeRequestInternal 1700000001000 1700000001000 ProbeThrows ''/v0/services'' noOptions
      (initial\<lparr>isApiBlocked := True, apiIsDown := True, lastHealthCheckTime := 1700000000000,
                failedEndpoints := {''/v0/services''},
                endpointFailureTimes := [''/v0/services'' \<mapsto> 1700000000000],
                globalRequestBlocked := True, globalBlockTime := 1700000000000,
                pendingRequests := [''GET:/v0/services:'' \<mapsto> 7]\<rparr>)) = Joined 7"
  using pending_request_bypasses_gates [where p = 7 and now = 1700000001000
      and later = 1700000001000 and pr = ProbeThrows and endpoint = "''/v0/services''"
      and options = noOptions
      and s = "initial\<lparr>isApiBlocked := True, apiIsDown := True, lastHealthCheckTime := 1700000000000,
                failedEndpoints := {''/v0/services''},
                endpointFailureTimes := [''/v0/services'' \<mapsto> 1700000000000],
                globalRequestBlocked := True, globalBlockTime := 1700000000000,
                pendingRequests := [''GET:/v0/services:'' \<mapsto> 7]\<rparr>"]
  by (simp add: initial_def getRequestKey_def noOptions_def)

subsection \<open>The order of the gates\<close>

text \<open>
  Claim C2 as stated fails: the breaker is consulted before the consent gate. A call to
  \<^verbatim>\<open>/v0/services\<close> arrives while a call to \<^verbatim>\<open>/v0/nav\<close> is waiting for its
  health probe, is rejected by the health gate and so trips the breaker of
  \<^verbatim>\<open>/v0/services\<close>; the probe comes back healthy and \<^verbatim>\<open>/v0/nav\<close> is issued and
  answered. Then consent is withdrawn. Forty seconds after the trip, with the global block
  elapsed, both the breaker and the consent gate would reject a call to
  \<^verbatim>\<open>/v0/services\<close>: it is rejected with the circuit-breaker classification and
  without the consent-blocked one.
\<close>

theorem consent_before_breaker_counterexample:
  "fst (isEndpointInCircuitBreaker 1700000040000 ''/v0/services''
     (setApiBlocked True
        (snd (requestSettles (\<lambda>e. False) (\<lambda>e. False)
           (Responds \<lparr> status = 200, statusText = ''OK'', redirected = False,
                       r_url = ''https://localhost:3000/v0/nav'', r_body = Some (JObj []) \<rparr>)
           ''/v0/nav'' noOptions
           (snd (makeRequestInternal_resume 1700000000200 True ''/v0/nav'' noOptions
              (snd (checkApiHealth_end (ProbeResult (JObj [(''status'', JStr ''ok'')]))
                 (snd (makeRequestInternal 1700000000000 1700000000000 ProbeThrows ''/v0/services'' noOptions
                 (snd (makeRequestInternal_begin 1700000000000 ''/v0/nav'' noOptions initial)))))))))))) \<and>
   checkConsentMiddleware
     (setApiBlocked True
        (snd (requestSettles (\<lambda>e. False) (\<lambda>e. False)
           (Responds \<lparr> status = 200, statusText = ''OK'', redirected = False,
                       r_url = ''https://localhost:3000/v0/nav'', r_body = Some (JObj []) \<rparr>)
           ''/v0/nav'' noOptions
           (snd (makeRequestInternal_resume 1700000000200 True ''/v0/nav'' noOptions
              (snd (checkApiHealth_end (ProbeResult (JObj [(''status'', JStr ''ok'')]))
                 (snd (makeRequestInternal 1700000000000 1700000000000 ProbeThrows ''/v0/services'' noOptions
                 (snd (makeRequestInternal_begin 1700000000000 ''/v0/nav'' noOptions initial))))))))))) = Some consentError \<and>
   map_option (\<lambda>e. (isCircuitBreaker e, isConsentBlocked e))
     (rejection (fst (makeRequestInternal 1700000040000 1700000040000 ProbeThrows
        ''/v0/services'' noOptions
     (setApiBlocked True
        (snd (requestSettles (\<lambda>e. False) (\<lambda>e. False)
           (Responds \<lparr> status = 200, statusText = ''OK'', redirected = False,
                       r_url = ''https://localhost:3000/v0/nav'', r_body = Some (JObj []) \<rparr>)
           ''/v0/nav'' noOptions
           (snd (makeRequestInternal_resume 1700000000200 True ''/v0/nav'' noOptions
              (snd (checkApiHealth_end (ProbeResult (JObj [(''status'', JStr ''ok'')]))
                 (snd (makeRequestInternal 1700000000000 1700000000000 ProbeThrows ''/v0/services'' noOptions
                 (snd (makeRequestInternal_begin 1700000000000 ''/v0/nav'' noOptions initial)))))))))))))) =
   Some (True, False)"
  by code_simp

text \<open>
  Claim C2, amended. For a call to an endpoint other than the health endpoint the checks run
  in this order, each on the state the call found: global 503 status, the pending-request
  registry, the global block, the endpoint's breaker, the consent gate, the health gate; the
  first that applies decides the outcome, and the request is issued when none does. So the
  consent gate comes before the health gate but after the registry and the breaker: with the
  breaker open and consent missing the failure carries the circuit-breaker classification.
  The public entry point is rejected, with the same error, or issued in the same cases.
\<close>

theorem makeRequestInternal_gate_order:
  "endpoint \<noteq> ''/v0/health'' \<Longrightarrow>
   (let r = fst (makeRequestInternal now later pr endpoint options s);
        key = getRequestKey endpoint options
    in (global503Status s \<longrightarrow> r = Rejected globallyUnavailable) \<and>
       (\<not> global503Status s \<longrightarrow>
          (\<forall>p. pendingRequests s key = Some p \<longrightarrow> r = Joined p) \<and>
          (pendingRequests s key = None \<longrightarrow>
             (fst (isGlobalRequestBlocked now s) \<longrightarrow> r = Rejected globalBlockError) \<and>
             (\<not> fst (isGlobalRequestBlocked now s) \<longrightarrow>
                (fst (isEndpointInCircuitBreaker now endpoint s) \<longrightarrow>
                   r = Rejected (circuitBreakerError endpoint)) \<and>
                (\<not> fst (isEndpointInCircuitBreaker now endpoint s) \<longrightarrow>
                   (isApiBlocked s \<longrightarrow> r = Rejected consentError) \<and>
                   (\<not> isApiBlocked s \<longrightarrow>
                      (\<not> fst (checkApiHealth now pr (pastBreaker now endpoint s)) \<longrightarrow>
                         r = Rejected healthCheckFailed) \<and>
                      (fst (checkApiHealth now pr (pastBreaker now endpoint s)) \<longrightarrow>
                         isIssued r))))))) \<and>
   isCircuitBreaker (circuitBreakerError endpoint) \<and>
   \<not> isConsentBlocked (circuitBreakerError endpoint) \<and>
   isConsentBlocked consentError \<and> \<not> isCircuitBreaker consentError \<and>
   rejection (fst (makePublicRequestInternal now later pr endpoint options s)) =
     rejection (fst (makeRequestInternal now later pr endpoint options s)) \<and>
   isIssued (fst (makePublicRequestInternal now later pr endpoint options s)) =
     isIssued (fst (makeRequestInternal now later pr endpoint options s))"
  unfolding Let_def
proof (intro conjI impI allI)
  show "isCircuitBreaker (circuitBreakerError endpoint)"
    and "\<not> isConsentBlocked (circuitBreakerError endpoint)"
    and "isConsentBlocked consentError" and "\<not> isCircuitBreaker consentError"
    by (simp_all add: circuitBreakerError_def consentError_def error503_def newError_def)
  show "rejection (fst (makePublicRequestInternal now later pr endpoint options s)) =
      rejection (fst (makeRequestInternal now later pr endpoint options s))"
    and "isIssued (fst (makePublicRequestInternal now later pr endpoint options s)) =
      isIssued (fst (makeRequestInternal now later pr endpoint options s))"
    using public_same_verdict [of now later pr endpoint options s] by blast+
qed (simp_all add: mri_global503 mri_joined mri_globalBlock mri_breaker mri_consent
       mri_health mri_issued)

text \<open>
  On a fresh client with a healthy probe a call to \<^verbatim>\<open>/v0/services\<close> is issued, and
  with consent missing it is rejected by the consent gate. In the run above, forty seconds
  after the trip, it is rejected by the breaker although consent is missing.
\<close>

theorem makeRequestInternal_gate_order_witness:
  "isIssued (fst (makeRequestInternal 1700000001000 1700000001000
      (ProbeResult (JObj [(''status'', JStr ''ok'')])) ''/v0/services'' noOptions initial)) \<and>
   fst (makeRequestInternal 1700000040000 1700000040000 ProbeThrows ''/v0/services'' noOptions
     (setApiBlocked True
        (snd (requestSettles (\<lambda>e. False) (\<lambda>e. False)
           (Responds \<lparr> status = 200, statusText = ''OK'', redirected = False,
                       r_url = ''https://localhost:3000/v0/nav'', r_body = Some (JObj []) \<rparr>)
           ''/v0/nav'' noOptions
           (snd (makeRequestInternal_resume 1700000000200 True ''/v0/nav'' noOptions
              (snd (checkApiHealth_end (ProbeResult (JObj [(''status'', JStr ''ok'')]))
                 (snd (makeRequestInternal 1700000000000 1700000000000 ProbeThrows ''/v0/services'' noOptions
                 (snd (makeRequestInternal_begin 1700000000000 ''/v0/nav'' noOptions initial)))))))))))) =
     Rejected (circuitBreakerError ''/v0/services'') \<and>
   fst (makeRequestInternal 1700000001000 1700000001000 ProbeThrows ''/v0/services'' noOptions
      (setApiBlocked True initial)) = Rejected consentError"
proof -
  let ?E = "''/v0/services''"
  let ?ok = "ProbeResult (JObj [(''status'', JStr ''ok'')])"
  let ?s2 = "setApiBlocked True
        (snd (requestSettles (\<lambda>e. False) (\<lambda>e. False)
           (Responds \<lparr> status = 200, statusText = ''OK'', redirected = False,
                       r_url = ''https://localhost:3000/v0/nav'', r_body = Some (JObj []) \<rparr>)
           ''/v0/nav'' noOptions
           (snd (makeRequestInternal_resume 1700000000200 True ''/v0/nav'' noOptions
              (snd (checkApiHealth_end (ProbeResult (JObj [(''status'', JStr ''ok'')]))
                 (snd (makeRequestInternal 1700000000000 1700000000000 ProbeThrows ''/v0/services'' noOptions
                 (snd (makeRequestInternal_begin 1700000000000 ''/v0/nav'' noOptions initial))))))))))"
  let ?s3 = "setApiBlocked True initial"
  have ep: "?E \<noteq> ''/v0/health''" by simp
  have a1: "\<not> global503Status initial" "pendingRequests initial (getRequestKey ?E noOptions) = None"
    "\<not> fst (isGlobalRequestBlocked 1700000001000 initial)"
    "\<not> fst (isEndpointInCircuitBreaker 1700000001000 ?E initial)" "\<not> isApiBlocked initial"
    "fst (checkApiHealth 1700000001000 ?ok (pastBreaker 1700000001000 ?E initial))"
    by code_simp+
  have a2: "\<not> global503Status ?s2" "pendingRequests ?s2 (getRequestKey ?E noOptions) = None"
    "\<not> fst (isGlobalRequestBlocked 1700000040000 ?s2)"
    "fst (isEndpointInCircuitBreaker 1700000040000 ?E ?s2)"
    by code_simp+
  have a3: "\<not> global503Status ?s3" "pendingRequests ?s3 (getRequestKey ?E noOptions) = None"
    "\<not> fst (isGlobalRequestBlocked 1700000001000 ?s3)"
    "\<not> fst (isEndpointInCircuitBreaker 1700000001000 ?E ?s3)" "isApiBlocked ?s3"
    by code_simp+
  note A = makeRequestInternal_gate_order [OF ep, where now = 1700000001000
      and later = 1700000001000 and pr = ?ok and options = noOptions and s = initial,
      unfolded Let_def]
  note B = makeRequestInternal_gate_order [OF ep, where now = 1700000040000
      and later = 1700000040000 and pr = ProbeThrows and options = noOptions and s = ?s2,
      unfolded Let_def]
  note C = makeRequestInternal_gate_order [OF ep, where now = 1700000001000
      and later = 1700000001000 and pr = ProbeThrows and options = noOptions and s = ?s3,
      unfolded Let_def]
  from A a1 have c1: "isIssued (fst (makeRequestInternal 1700000001000 1700000001000 ?ok ?E
      noOptions initial))"
    by blast
  from B a2 have c2: "fst (makeRequestInternal 1700000040000 1700000040000 ProbeThrows ?E
      noOptions ?s2) = Rejected (circuitBreakerError ?E)"
    by blast
  from C a3 have c3: "fst (makeRequestInternal 1700000001000 1700000001000 ProbeThrows ?E
      noOptions ?s3) = Rejected consentError"
    by blast
  from c1 c2 c3 show ?thesis by blast
qed

subsection \<open>Consent gate\<close>

text \<open>
  Claim C5 as stated fails: with consent missing and global 503 status set, a call to
  \<^verbatim>\<open>/v0/services\<close> is rejected by the first check, with an error that does not carry
  the consent-blocked classification.
\<close>

theorem consent_classification_counterexample:
  "map_option isConsentBlocked
     (rejection (fst (makeRequest 1700000001000 1700000001000 ProbeThrows
        ''/v0/services'' noOptions (initial\<lparr>isApiBlocked := True, global503Status := True\<rparr>)))) =
   Some False"
  by (simp add: makeRequest_def mri_global503 initial_def globallyUnavailable_def error503_def
        newError_def)

text \<open>
  Claim C5, amended. While consent is not granted, a call to \<open>makeRequest\<close> or
  \<open>makePublicRequest\<close> for an endpoint other than the health endpoint never enters the
  request pipeline: nothing is fetched, no health probe is started and nothing is registered.
  It is rejected with the consent-blocked classification whenever it reaches the consent
  gate, that is when global 503 status is not set, no identical request is registered, no
  global block is active and the endpoint's breaker is not open; otherwise an earlier check
  rejects it or hands back the registered promise. A call to the health endpoint is not
  subject to the consent check: with global 503 status not set and no identical request
  registered it is issued.
\<close>

theorem consent_gate_no_network:
  "isApiBlocked s \<Longrightarrow> endpoint \<noteq> ''/v0/health'' \<Longrightarrow>
   \<not> isIssued (fst (makeRequest now later pr endpoint options s)) \<and>
   fetched (snd (makeRequest now later pr endpoint options s)) = fetched s \<and>
   probes (snd (makeRequest now later pr endpoint options s)) = probes s \<and>
   pendingRequests (snd (makeRequest now later pr endpoint options s)) = pendingRequests s \<and>
   \<not> isIssued (fst (makePublicRequest now later pr endpoint options s)) \<and>
   fetched (snd (makePublicRequest now later pr endpoint options s)) = fetched s \<and>
   probes (snd (makePublicRequest now later pr endpoint options s)) = probes s \<and>
   pendingRequests (snd (makePublicRequest now later pr endpoint options s)) = pendingRequests s \<and>
   (\<not> global503Status s \<and> pendingRequests s (getRequestKey endpoint options) = None \<and>
    \<not> fst (isGlobalRequestBlocked now s) \<and> \<not> fst (isEndpointInCircuitBreaker now endpoint s) \<longrightarrow>
      fst (makeRequest now later pr endpoint options s) = Rejected consentError \<and>
      fst (makePublicRequest now later pr endpoint options s) = Rejected consentError) \<and>
   isConsentBlocked consentError \<and>
   (\<not> global503Status s \<and> pendingRequests s (getRequestKey ''/v0/health'' options) = None \<longrightarrow>
      isIssued (fst (makeRequest now later pr ''/v0/health'' options s)) \<and>
      isIssued (fst (makePublicRequest now later pr ''/v0/health'' options s)))"
  unfolding makeRequest_def makePublicRequest_def
proof -
  assume blocked: "isApiBlocked s" and ep: "endpoint \<noteq> ''/v0/health''"
  have health: "\<not> global503Status s \<and> pendingRequests s (getRequestKey ''/v0/health'' options) = None \<longrightarrow>
      isIssued (fst (makeRequestInternal now later pr ''/v0/health'' options s)) \<and>
      isIssued (fst (makePublicRequestInternal now later pr ''/v0/health'' options s))"
    by (simp add: mri_health_endpoint mpri_health_endpoint)
  have cls: "isConsentBlocked consentError"
    by (simp add: consentError_def newError_def)
  consider (g503) "global503Status s"
    | (joined) p where "\<not> global503Status s" "pendingRequests s (getRequestKey endpoint options) = Some p"
    | (gblock) "\<not> global503Status s" "pendingRequests s (getRequestKey endpoint options) = None"
        "fst (isGlobalRequestBlocked now s)"
    | (breaker) "\<not> global503Status s" "pendingRequests s (getRequestKey endpoint options) = None"
        "\<not> fst (isGlobalRequestBlocked now s)" "fst (isEndpointInCircuitBreaker now endpoint s)"
    | (consent) "\<not> global503Status s" "pendingRequests s (getRequestKey endpoint options) = None"
        "\<not> fst (isGlobalRequestBlocked now s)" "\<not> fst (isEndpointInCircuitBreaker now endpoint s)"
    by (cases "pendingRequests s (getRequestKey endpoint options)") auto
  then show "\<not> isIssued (fst (makeRequestInternal now later pr endpoint options s)) \<and>
   fetched (snd (makeRequestInternal now later pr endpoint options s)) = fetched s \<and>
   probes (snd (makeRequestInternal now later pr endpoint options s)) = probes s \<and>
   pendingRequests (snd (makeRequestInternal now later pr endpoint options s)) = pendingRequests s \<and>
   \<not> isIssued (fst (makePublicRequestInternal now later pr endpoint options s)) \<and>
   fetched (snd (makePublicRequestInternal now later pr endpoint options s)) = fetched s \<and>
   probes (snd (makePublicRequestInternal now later pr endpoint options s)) = probes s \<and>
   pendingRequests (snd (makePublicRequestInternal now later pr endpoint options s)) =
     pendingRequests s \<and>
   (\<not> global503Status s \<and> pendingRequests s (getRequestKey endpoint options) = None \<and>
    \<not> fst (isGlobalRequestBlocked now s) \<and> \<not> fst (isEndpointInCircuitBreaker now endpoint s) \<longrightarrow>
      fst (makeRequestInternal now later pr endpoint options s) = Rejected consentError \<and>
      fst (makePublicRequestInternal now later pr endpoint options s) = Rejected consentError) \<and>
   isConsentBlocked consentError \<and>
   (\<not> global503Status s \<and> pendingRequests s (getRequestKey ''/v0/health'' options) = None \<longrightarrow>
      isIssued (fst (makeRequestInternal now later pr ''/v0/health'' options s)) \<and>
      isIssued (fst (makePublicRequestInternal now later pr ''/v0/health'' options s)))"
  proof cases
    case g503
    with health cls show ?thesis by (simp add: mri_global503 mpri_global503)
  next
    case joined
    with health cls show ?thesis by (simp add: mri_joined mpri_joined)
  next
    case gblock
    with ep health cls show ?thesis by (simp add: mri_globalBlock mpri_globalBlock)
  next
    case breaker
    with ep health cls show ?thesis by (simp add: mri_breaker mpri_breaker)
  next
    case consent
    with ep blocked health cls show ?thesis by (simp add: mri_consent mpri_consent)
  qed
qed

text \<open>
  Without consent a call to \<^verbatim>\<open>/v0/services\<close> is rejected as consent-blocked and only
  tracked, so is a public call to \<^verbatim>\<open>/v0/serviceAreas\<close>, and the health probe is
  issued.
\<close>

theorem consent_gate_no_network_witness:
  "makeRequest 1700000001000 1700000001000 ProbeThrows ''/v0/services'' noOptions
      (initial\<lparr>isApiBlocked := True\<rparr>) =
     (Rejected consentError, initial\<lparr>isApiBlocked := True, pageApiCalls := [''/v0/services'']\<rparr>) \<and>
   fst (makePublicRequest 1700000001000 1700000001000 ProbeThrows ''/v0/serviceAreas''
      noOptions (initial\<lparr>isApiBlocked := True\<rparr>)) = Rejected consentError \<and>
   isIssued (fst (makeRequest 1700000001000 1700000001000 ProbeThrows ''/v0/health''
      noOptions (initial\<lparr>isApiBlocked := True\<rparr>)))"
proof -
  let ?s = "initial\<lparr>isApiBlocked := True\<rparr>"
  have b: "isApiBlocked ?s" by simp
  have e1: "''/v0/services'' \<noteq> ''/v0/health''" and e2: "''/v0/serviceAreas'' \<noteq> ''/v0/health''"
    by simp_all
  have g: "\<not> global503Status ?s" by (simp add: initial_def)
  have p1: "pendingRequests ?s (getRequestKey ''/v0/services'' noOptions) = None"
    and p2: "pendingRequests ?s (getRequestKey ''/v0/serviceAreas'' noOptions) = None"
    and p3: "pendingRequests ?s (getRequestKey ''/v0/health'' noOptions) = None"
    by (simp_all add: initial_def)
  have n1: "\<not> fst (isGlobalRequestBlocked 1700000001000 ?s)"
    and n2: "\<not> fst (isEndpointInCircuitBreaker 1700000001000 ''/v0/services'' ?s)"
    and n3: "\<not> fst (isEndpointInCircuitBreaker 1700000001000 ''/v0/serviceAreas'' ?s)"
    by (simp_all add: initial_def isGlobalRequestBlocked_def isEndpointInCircuitBreaker_def)
  note A = consent_gate_no_network [OF b e1, where now = 1700000001000
      and later = 1700000001000 and pr = ProbeThrows and options = noOptions]
  note B = consent_gate_no_network [OF b e2, where now = 1700000001000
      and later = 1700000001000 and pr = ProbeThrows and options = noOptions]
  from A g p1 n1 n2
  have r1: "fst (makeRequest 1700000001000 1700000001000 ProbeThrows ''/v0/services'' noOptions ?s) =
      Rejected consentError"
    by blast
  have s1: "snd (makeRequest 1700000001000 1700000001000 ProbeThrows ''/v0/services'' noOptions ?s) =
      initial\<lparr>isApiBlocked := True, pageApiCalls := [''/v0/services'']\<rparr>"
    using g p1 n1 n2 e1 b
    by (simp add: makeRequest_def mri_consent pastBreaker_def isGlobalRequestBlocked_def
          isEndpointInCircuitBreaker_def trackApiCall_def initial_def)
  from B g p2 n1 n3
  have r2: "fst (makePublicRequest 1700000001000 1700000001000 ProbeThrows ''/v0/serviceAreas''
      noOptions ?s) = Rejected consentError"
    by blast
  from A g p3
  have r3: "isIssued (fst (makeRequest 1700000001000 1700000001000 ProbeThrows ''/v0/health''
      noOptions ?s))"
    by blast
  from r1 s1 r2 r3 show ?thesis
    by (simp add: prod_eq_iff)
qed

subsection \<open>Circuit breaker\<close>




subsection \<open>Request deduplication\<close>




text \<open>
  What becomes of a call that arrives while the first call with its identity is still waiting
  for the health gate is not part of the amended claim. In the code the first call is not yet
  registered then, and the second finds a health check in progress: it is rejected by the
  health gate, and the first is issued when its probe has come back healthy.
\<close>

lemma call_during_health_check_of_first:
  "fst (makeRequestInternal_begin 1700000000000 ''/v0/about'' noOptions initial) =
     AwaitsHealth None \<and>
   pendingRequests (snd (makeRequestInternal_begin 1700000000000 ''/v0/about'' noOptions initial))
     ''GET:/v0/about:'' = None \<and>
   fst (makeRequestInternal 1700000000000 1700000000000 ProbeThrows ''/v0/about'' noOptions
          (snd (makeRequestInternal_begin 1700000000000 ''/v0/about'' noOptions initial))) =
     Rejected healthCheckFailed \<and>
   fst (makeRequestInternal_resume 1700000000200 True ''/v0/about'' noOptions
          (snd (checkApiHealth_end (ProbeResult (JObj [(''status'', JStr ''ok'')]))
             (snd (makeRequestInternal 1700000000000 1700000000000 ProbeThrows ''/v0/about''
                     noOptions
                     (snd (makeRequestInternal_begin 1700000000000 ''/v0/about'' noOptions
                             initial))))))) =
     Issued 1"
  by code_simp

subsection \<open>Retry with backoff\<close>

text \<open>
  Claim C3. With the default of 3 retries, an operation whose calls 0 to 3 all fail with a
  retryable error is called exactly 4 times, the run ends with the error of the last call,
  and the three delays slept in between are \<open>min (1000 * 2 ^ attempt + jitter) 10000\<close>
  with \<open>jitter = random attempt * 1000\<close>, the product and the sum computed in doubles
  (rounded by \<open>fl\<close>). When each random number is a double in \<open>[0, 1)\<close>, so at most
  \<open>1 - 1 / 2 ^ 53\<close>, and \<open>fl\<close> is monotone, exact on the integers up to
  \<open>2 ^ 53\<close> and below 1000 for every argument below \<open>1000 - 1 / 2 ^ 44\<close>, as
  rounding to the nearest double is, the jitter lies in \<open>[0, 1000)\<close> and delay number \<open>i\<close> lies
  between \<open>1000 * 2 ^ i\<close> and \<open>1000 * 2 ^ i + 1000\<close>, both included (the sum may round
  up to the upper bound), below the cap. When call number \<open>k\<close> is the first to fail with
  an error that is not retryable, the run ends with that error after \<open>k + 1\<close> calls: no
  further call and no further delay follows. The request of a critical endpoint is such an
  operation: \<open>executeRequestWithRetry\<close> runs it under \<open>retryWithBackoff\<close> with
  the default of 3 retries.
\<close>

theorem retryWithBackoff_four_attempts:
  "((\<forall>n\<le>3. \<exists>e. fn n = Inl e \<and> isRetryableError c e) \<longrightarrow>
      attempts (retryWithBackoff fn c random fl maxRetries_default) = 4 \<and>
      result (retryWithBackoff fn c random fl maxRetries_default) = fn 3 \<and>
      delays (retryWithBackoff fn c random fl maxRetries_default) =
        [min (fl (1000 * 2 ^ 0 + fl (random 0 * 1000))) 10000,
         min (fl (1000 * 2 ^ 1 + fl (random 1 * 1000))) 10000,
         min (fl (1000 * 2 ^ 2 + fl (random 2 * 1000))) 10000] \<and>
      ((\<forall>n. 0 \<le> random n \<and> random n \<le> 1 - 1 / 2 ^ 53) \<and> mono fl \<and>
       (\<forall>k::nat. k \<le> 2 ^ 53 \<longrightarrow> fl (real k) = real k) \<and>
       (\<forall>x. x < 1000 - 1 / 2 ^ 44 \<longrightarrow> fl x < 1000) \<longrightarrow>
         (\<forall>i<3. 0 \<le> fl (random i * 1000) \<and> fl (random i * 1000) < 1000 \<and>
                 1000 * 2 ^ i \<le> delays (retryWithBackoff fn c random fl maxRetries_default) ! i \<and>
                 delays (retryWithBackoff fn c random fl maxRetries_default) ! i \<le> 1000 * 2 ^ i + 1000 \<and>
                 delays (retryWithBackoff fn c random fl maxRetries_default) ! i \<le> 10000))) \<and>
   (\<forall>k e. k \<le> 3 \<and> (\<forall>n<k. \<exists>e'. fn n = Inl e' \<and> isRetryableError c e') \<and>
          fn k = Inl e \<and> \<not> isRetryableError c e \<longrightarrow>
      result (retryWithBackoff fn c random fl maxRetries_default) = Inl e \<and>
      attempts (retryWithBackoff fn c random fl maxRetries_default) = Suc k \<and>
      length (delays (retryWithBackoff fn c random fl maxRetries_default)) = k) \<and>
   (shouldRetryEndpoint endpoint \<longrightarrow>
      executeRequestWithRetry fn c random fl endpoint =
        retryWithBackoff fn c random fl maxRetries_default) \<and>
   maxRetries_default = 3"
proof (intro conjI impI allI)
  show "maxRetries_default = 3"
    by (simp add: maxRetries_default_def)
  assume "shouldRetryEndpoint endpoint"
  then show "executeRequestWithRetry fn c random fl endpoint =
      retryWithBackoff fn c random fl maxRetries_default"
    by (simp add: executeRequestWithRetry_def)
next
  assume all: "\<forall>n\<le>3. \<exists>e. fn n = Inl e \<and> isRetryableError c e"
  have run: "retryWithBackoff fn c random fl maxRetries_default =
      \<lparr> result = fn 3, attempts = Suc 3, delays = [] @ map (backoff random fl) [0..<3] \<rparr>"
    unfolding retryWithBackoff_def maxRetries_default_def
    using all retryLoop_until [of 0 3 3 fn c random fl None "[]"] by simp
  have upt: "[0..<3] = [0, Suc 0, Suc (Suc 0)]"
    by (simp add: upt_rec eval_nat_numeral)
  show "attempts (retryWithBackoff fn c random fl maxRetries_default) = 4"
    and "result (retryWithBackoff fn c random fl maxRetries_default) = fn 3"
    by (simp_all add: run)
  show ds: "delays (retryWithBackoff fn c random fl maxRetries_default) =
        [min (fl (1000 * 2 ^ 0 + fl (random 0 * 1000))) 10000,
         min (fl (1000 * 2 ^ 1 + fl (random 1 * 1000))) 10000,
         min (fl (1000 * 2 ^ 2 + fl (random 2 * 1000))) 10000]"
    by (simp add: run upt backoff_def baseDelay_def maxDelay_def eval_nat_numeral)
  {
    fix i :: nat
    assume h: "(\<forall>n. 0 \<le> random n \<and> random n \<le> 1 - 1 / 2 ^ 53) \<and> mono fl \<and>
       (\<forall>k::nat. k \<le> 2 ^ 53 \<longrightarrow> fl (real k) = real k) \<and>
       (\<forall>x. x < 1000 - 1 / 2 ^ 44 \<longrightarrow> fl x < 1000)"
      and i: "i < 3"
    from h have r: "0 \<le> random i" "random i \<le> 1 - 1 / 2 ^ 53" by simp_all
    from h have m: "mono fl" by simp
    from h have ex: "\<forall>k::nat. k \<le> 2 ^ 53 \<longrightarrow> fl (real k) = real k" by simp
    from h have st: "\<forall>x. x < 1000 - 1 / 2 ^ 44 \<longrightarrow> fl x < 1000" by simp
    note B = backoff_bounds [OF r m ex st i]
    from B show "0 \<le> fl (random i * 1000)" and "fl (random i * 1000) < 1000"
      by simp_all
    have d: "delays (retryWithBackoff fn c random fl maxRetries_default) ! i =
        min (fl (1000 * 2 ^ i + fl (random i * 1000))) 10000"
    proof -
      from i have "i = 0 \<or> i = 1 \<or> i = 2" by auto
      then show ?thesis by (auto simp add: ds)
    qed
    from i have "(2::nat) ^ i \<le> 4"
      using power_increasing [of i 2 "2::nat"] by simp
    then have "real (2 ^ i) \<le> real 4" by (simp only: of_nat_le_iff)
    then have cap: "(1000::real) * 2 ^ i \<le> 10000" by simp
    from B(3) cap show "1000 * 2 ^ i \<le> delays (retryWithBackoff fn c random fl maxRetries_default) ! i"
      by (simp add: d)
    from B(4) show "delays (retryWithBackoff fn c random fl maxRetries_default) ! i \<le> 1000 * 2 ^ i + 1000"
      by (simp add: d min_le_iff_disj)
    show "delays (retryWithBackoff fn c random fl maxRetries_default) ! i \<le> 10000"
      by (simp add: d)
  }
next
  fix k e
  assume a: "k \<le> 3 \<and> (\<forall>n<k. \<exists>e'. fn n = Inl e' \<and> isRetryableError c e') \<and>
          fn k = Inl e \<and> \<not> isRetryableError c e"
  then have run: "retryWithBackoff fn c random fl maxRetries_default =
      \<lparr> result = fn k, attempts = Suc k, delays = [] @ map (backoff random fl) [0..<k] \<rparr>"
    unfolding retryWithBackoff_def maxRetries_default_def
    using retryLoop_until [of 0 k 3 fn c random fl None "[]"] by simp
  with a show "result (retryWithBackoff fn c random fl maxRetries_default) = Inl e"
    and "attempts (retryWithBackoff fn c random fl maxRetries_default) = Suc k"
    and "length (delays (retryWithBackoff fn c random fl maxRetries_default)) = k"
    by simp_all
qed


text \<open>
  With exact arithmetic for the rounding: an operation that always fails with status 503 is
  called 4 times with delays 1500, 2500 and 4500 ms when every random number is one half,
  and the second delay is within its bounds; one that fails with a 404 message is called
  once.
\<close>

theorem retryWithBackoff_four_attempts_witness:
  "attempts (retryWithBackoff (\<lambda>n. Inl ((newError ''HTTP 503'')\<lparr>statusCode := Some 503\<rparr>) :: jserror + jsval)
      (\<lambda>e. False) (\<lambda>n. 1 / 2) (\<lambda>x. x) maxRetries_default) = 4 \<and>
   delays (retryWithBackoff (\<lambda>n. Inl ((newError ''HTTP 503'')\<lparr>statusCode := Some 503\<rparr>) :: jserror + jsval)
      (\<lambda>e. False) (\<lambda>n. 1 / 2) (\<lambda>x. x) maxRetries_default) = [1500, 2500, 4500] \<and>
   2000 \<le> delays (retryWithBackoff (\<lambda>n. Inl ((newError ''HTTP 503'')\<lparr>statusCode := Some 503\<rparr>) :: jserror + jsval)
      (\<lambda>e. False) (\<lambda>n. 1 / 2) (\<lambda>x. x) maxRetries_default) ! 1 \<and>
   delays (retryWithBackoff (\<lambda>n. Inl ((newError ''HTTP 503'')\<lparr>statusCode := Some 503\<rparr>) :: jserror + jsval)
      (\<lambda>e. False) (\<lambda>n. 1 / 2) (\<lambda>x. x) maxRetries_default) ! 1 \<le> 3000 \<and>
   attempts (retryWithBackoff (\<lambda>n. Inl (newError ''HTTP 404: Not Found'') :: jserror + jsval)
      (\<lambda>e. False) (\<lambda>n. 1 / 2) (\<lambda>x. x) maxRetries_default) = Suc 0"
proof -
  let ?e = "(newError ''HTTP 503'')\<lparr>statusCode := Some 503\<rparr>"
  let ?f = "newError ''HTTP 404: Not Found''"
  let ?R = "retryWithBackoff (\<lambda>n. Inl ?e :: jserror + jsval) (\<lambda>e. False) (\<lambda>n. 1 / 2)
        (\<lambda>x. x) maxRetries_default"
  let ?Q = "retryWithBackoff (\<lambda>n. Inl ?f :: jserror + jsval) (\<lambda>e. False) (\<lambda>n. 1 / 2)
        (\<lambda>x. x) maxRetries_default"
  have r: "isRetryableError (\<lambda>e. False) ?e" by code_simp
  have n: "\<not> isRetryableError (\<lambda>e. False) ?f" by code_simp
  from r have h: "\<forall>n\<le>(3::nat). \<exists>e. (\<lambda>n. Inl ?e :: jserror + jsval) n = Inl e \<and>
      isRetryableError (\<lambda>e. False) e"
    by blast
  from n have g: "(0::nat) \<le> 3 \<and> (\<forall>n<(0::nat). \<exists>e'. (\<lambda>n. Inl ?f :: jserror + jsval) n = Inl e' \<and>
        isRetryableError (\<lambda>e. False) e') \<and>
      (\<lambda>n. Inl ?f :: jserror + jsval) 0 = Inl ?f \<and> \<not> isRetryableError (\<lambda>e. False) ?f"
    by blast
  have rnd: "\<forall>n::nat. (0::real) \<le> 1 / 2 \<and> (1::real) / 2 \<le> 1 - 1 / 2 ^ 53"
    by simp
  have mono: "mono (\<lambda>x::real. x)"
    by (simp add: mono_def)
  have exact: "\<forall>k::nat. k \<le> 2 ^ 53 \<longrightarrow> (\<lambda>x::real. x) (real k) = real k"
    by simp
  have strict: "\<forall>x::real. x < 1000 - 1 / 2 ^ 44 \<longrightarrow> (\<lambda>x::real. x) x < 1000"
  proof (intro allI impI)
    fix x :: real
    assume "x < 1000 - 1 / 2 ^ 44"
    moreover have "(0::real) < 1 / 2 ^ 44" by simp
    ultimately show "x < 1000" by linarith
  qed
  note T = retryWithBackoff_four_attempts [where fn = "\<lambda>n. Inl ?e :: jserror + jsval"
      and c = "\<lambda>e. False" and random = "\<lambda>n. 1 / 2" and fl = "\<lambda>x. x"]
  from T h have C: "attempts ?R = 4 \<and> result ?R = (\<lambda>n. Inl ?e :: jserror + jsval) 3 \<and>
      delays ?R = [min (1000 * 2 ^ 0 + (\<lambda>n. 1 / 2) (0::nat) * 1000) 10000,
         min (1000 * 2 ^ 1 + (\<lambda>n. 1 / 2) (1::nat) * 1000) 10000,
         min (1000 * 2 ^ 2 + (\<lambda>n. 1 / 2) (2::nat) * 1000) 10000]"
    by blast
  then have a: "attempts ?R = 4" by (rule conjunct1)
  have eq: "[min (1000 * 2 ^ 0 + (\<lambda>n. 1 / 2) (0::nat) * 1000) 10000,
         min (1000 * 2 ^ 1 + (\<lambda>n. 1 / 2) (1::nat) * 1000) 10000,
         min (1000 * 2 ^ 2 + (\<lambda>n. 1 / 2) (2::nat) * 1000) 10000] = [1500, 2500, 4500 :: real]"
    by simp
  from C have "delays ?R = [min (1000 * 2 ^ 0 + (\<lambda>n. 1 / 2) (0::nat) * 1000) 10000,
         min (1000 * 2 ^ 1 + (\<lambda>n. 1 / 2) (1::nat) * 1000) 10000,
         min (1000 * 2 ^ 2 + (\<lambda>n. 1 / 2) (2::nat) * 1000) 10000]"
    by blast
  with eq have d: "delays ?R = [1500, 2500, 4500]" by (rule ssubst [rotated])
  from T h rnd mono exact strict
  have "\<forall>i<3. 1000 * 2 ^ i \<le> delays ?R ! i \<and> delays ?R ! i \<le> 1000 * 2 ^ i + 1000"
    by blast
  then have "(1::nat) < 3 \<longrightarrow> 1000 * 2 ^ 1 \<le> delays ?R ! 1 \<and> delays ?R ! 1 \<le> 1000 * 2 ^ 1 + 1000"
    by (rule spec)
  then have bd: "2000 \<le> delays ?R ! 1 \<and> delays ?R ! 1 \<le> 3000" by simp
  note U = retryWithBackoff_four_attempts [where fn = "\<lambda>n. Inl ?f :: jserror + jsval"
      and c = "\<lambda>e. False" and random = "\<lambda>n. 1 / 2" and fl = "\<lambda>x. x"]
  from U g have b: "attempts ?Q = Suc 0" by blast
  from a d bd b show ?thesis by blast
qed

subsection \<open>Cache expiry\<close>

text \<open>
  Claim C6. In \<open>HomePageCache\<close>, whose time to live is \<open>CACHE_DURATION\<close> (300000 ms)
  for every key, a value written with \<open>set\<close> at time \<open>insertedAt\<close> is stored with \<open>insertedAt\<close> as
  its insertion time, replacing what the key held and touching no other key. A read of the
  key at time \<open>now\<close> with \<open>now - insertedAt \<le> ttl\<close> returns that value and leaves the cache
  as it is; a read with \<open>now - insertedAt > ttl\<close> deletes the entry and returns \<^verbatim>\<open>null\<close>,
  and so does every read after it until the key is written again. The same holds for any
  entry found in the cache. No read touches the client, so none makes a network call.
  Eviction is lazy: an entry disappears only by a read of its own key once it has expired, by
  \<open>clear\<close>, or by the explicit sweep \<open>clearExpired\<close> once it has expired; a write or a
  read of another key never removes it.

  The response cache read by \<open>getLocations\<close> behaves in the same way with the time to
  live of 15 minutes that \<open>getLocations\<close> gives its entry: once a truthy result has been
  stored at time \<open>insertedAt\<close>, a call at time \<open>now\<close> with \<open>now - insertedAt \<le> 900000\<close> returns
  it and leaves the client as it is, and a call with \<open>now - insertedAt > 900000\<close> evicts the
  entry and makes the request.
\<close>

theorem homePageCache_ttl:
  "(now - insertedAt \<le> CACHE_DURATION \<longrightarrow>
      cache_get now key (cache_set insertedAt key v c) = (v, cache_set insertedAt key v c)) \<and>
   (now - insertedAt > CACHE_DURATION \<longrightarrow>
      cache_get now key (cache_set insertedAt key v c) = (JNull, c(key := None)) \<and>
      cache_get now' key (c(key := None)) = (JNull, c(key := None))) \<and>
   cache_set insertedAt key v c key = Some (v, insertedAt) \<and>
   (\<forall>k. k \<noteq> key \<longrightarrow> cache_set insertedAt key v c k = c k) \<and>
   (\<forall>d ts. c key = Some (d, ts) \<and> now - ts \<le> CACHE_DURATION \<longrightarrow> cache_get now key c = (d, c)) \<and>
   (\<forall>d ts. c key = Some (d, ts) \<and> now - ts > CACHE_DURATION \<longrightarrow>
      cache_get now key c = (JNull, c(key := None))) \<and>
   (c key = None \<longrightarrow> cache_get now key c = (JNull, c)) \<and>
   (\<forall>k d ts. c k = Some (d, ts) \<and> cacheStep now operation c k = None \<longrightarrow>
      (operation = Get k \<and> now - ts > CACHE_DURATION) \<or> operation = Clear \<or>
      (operation = ClearExpired \<and> now - ts > CACHE_DURATION)) \<and>
   (truthy res \<and> now - insertedAt \<le> 900000 \<longrightarrow>
      getLocations now later pr (getLocations_resolved insertedAt res a) s =
        (FromCache res, getLocations_resolved insertedAt res a, s)) \<and>
   (truthy res \<and> now - insertedAt > 900000 \<longrightarrow>
      getLocations now later pr (getLocations_resolved insertedAt res a) s =
        (FromRequest (fst (makeRequest now later pr ''/v0/locations'' noOptions s)),
         a(''/v0/locations'' := None),
         snd (makeRequest now later pr ''/v0/locations'' noOptions s))) \<and>
   (a ''/v0/locations'' = None \<longrightarrow>
      getLocations now later pr a s =
        (FromRequest (fst (makeRequest now later pr ''/v0/locations'' noOptions s)), a,
         snd (makeRequest now later pr ''/v0/locations'' noOptions s))) \<and>
   CACHE_DURATION = 300000"
proof -
  have lazy: "\<forall>k d ts. c k = Some (d, ts) \<and> cacheStep now operation c k = None \<longrightarrow>
      (operation = Get k \<and> now - ts > CACHE_DURATION) \<or> operation = Clear \<or>
      (operation = ClearExpired \<and> now - ts > CACHE_DURATION)"
    by (cases operation)
       (auto simp add: cache_set_def cache_get_def cache_clear_def clearExpired_def
          split: option.splits if_splits prod.splits)
  have api: "(truthy res \<and> now - insertedAt \<le> 900000 \<longrightarrow>
      getLocations now later pr (getLocations_resolved insertedAt res a) s =
        (FromCache res, getLocations_resolved insertedAt res a, s)) \<and>
   (truthy res \<and> now - insertedAt > 900000 \<longrightarrow>
      getLocations now later pr (getLocations_resolved insertedAt res a) s =
        (FromRequest (fst (makeRequest now later pr ''/v0/locations'' noOptions s)),
         a(''/v0/locations'' := None),
         snd (makeRequest now later pr ''/v0/locations'' noOptions s))) \<and>
   (a ''/v0/locations'' = None \<longrightarrow>
      getLocations now later pr a s =
        (FromRequest (fst (makeRequest now later pr ''/v0/locations'' noOptions s)), a,
         snd (makeRequest now later pr ''/v0/locations'' noOptions s)))"
    by (simp add: getLocations_def getLocations_resolved_def getCachedApiResponse_def
          cacheApiResponse_def Let_def)
  have hp: "(now - insertedAt \<le> CACHE_DURATION \<longrightarrow>
      cache_get now key (cache_set insertedAt key v c) = (v, cache_set insertedAt key v c)) \<and>
   (now - insertedAt > CACHE_DURATION \<longrightarrow>
      cache_get now key (cache_set insertedAt key v c) = (JNull, c(key := None)) \<and>
      cache_get now' key (c(key := None)) = (JNull, c(key := None))) \<and>
   cache_set insertedAt key v c key = Some (v, insertedAt) \<and>
   (\<forall>k. k \<noteq> key \<longrightarrow> cache_set insertedAt key v c k = c k) \<and>
   (\<forall>d ts. c key = Some (d, ts) \<and> now - ts \<le> CACHE_DURATION \<longrightarrow> cache_get now key c = (d, c)) \<and>
   (\<forall>d ts. c key = Some (d, ts) \<and> now - ts > CACHE_DURATION \<longrightarrow>
      cache_get now key c = (JNull, c(key := None))) \<and>
   (c key = None \<longrightarrow> cache_get now key c = (JNull, c))"
    by (simp add: cache_get_def cache_set_def)
  from lazy api hp show ?thesis
    by (simp add: CACHE_DURATION_def)
qed

text \<open>
  A value written at time 1700000000000 is returned 300000 ms later and evicted by a read one
  millisecond after that; locations stored at that time are returned from the response cache
  900000 ms later with the client untouched.
\<close>

theorem homePageCache_ttl_witness:
  "cache_get 1700000300000 ''services_data''
     (cache_set 1700000000000 ''services_data'' (JStr ''x'') Map.empty) =
     (JStr ''x'', [''services_data'' \<mapsto> (JStr ''x'', 1700000000000)]) \<and>
   cache_get 1700000300001 ''services_data''
     (cache_set 1700000000000 ''services_data'' (JStr ''x'') Map.empty) = (JNull, Map.empty) \<and>
   getLocations 1700000900000 1700000900000 ProbeThrows
     (getLocations_resolved 1700000000000 (JObj [(''locations'', JArr [])]) Map.empty) initial =
     (FromCache (JObj [(''locations'', JArr [])]),
      [''/v0/locations'' \<mapsto> (JObj [(''locations'', JArr [])], 1700000000000, 900000)], initial)"
proof -
  let ?c = "cache_set 1700000000000 ''services_data'' (JStr ''x'') Map.empty"
  let ?l = "JObj [(''locations'', JArr [])]"
  have h1: "(1700000300000::int) - 1700000000000 \<le> CACHE_DURATION"
    and h2: "(1700000300001::int) - 1700000000000 > CACHE_DURATION"
    by (simp_all add: CACHE_DURATION_def)
  have h3: "truthy ?l \<and> (1700000900000::int) - 1700000000000 \<le> 900000" by simp
  have c: "?c = [''services_data'' \<mapsto> (JStr ''x'', 1700000000000)]"
    by (simp add: cache_set_def)
  have l: "getLocations_resolved 1700000000000 ?l Map.empty =
      [''/v0/locations'' \<mapsto> (?l, 1700000000000, 900000)]"
    by (simp add: getLocations_resolved_def cacheApiResponse_def)
  from homePageCache_ttl [where c = Map.empty and key = "''services_data''" and v = "JStr ''x''"
      and insertedAt = 1700000000000 and now = 1700000300000] h1
  have "cache_get 1700000300000 ''services_data'' ?c = (JStr ''x'', ?c)" by blast
  with c have a: "cache_get 1700000300000 ''services_data'' ?c =
      (JStr ''x'', [''services_data'' \<mapsto> (JStr ''x'', 1700000000000)])"
    by simp
  from homePageCache_ttl [where c = Map.empty and key = "''services_data''" and v = "JStr ''x''"
      and insertedAt = 1700000000000 and now = 1700000300001] h2
  have "cache_get 1700000300001 ''services_data'' ?c = (JNull, Map.empty(''services_data'' := None))"
    by blast
  then have b: "cache_get 1700000300001 ''services_data'' ?c = (JNull, Map.empty)" by simp
  from homePageCache_ttl [where res = ?l and a = Map.empty and s = initial
      and insertedAt = 1700000000000 and now = 1700000900000 and later = 1700000900000
      and pr = ProbeThrows] h3
  have "getLocations 1700000900000 1700000900000 ProbeThrows
      (getLocations_resolved 1700000000000 ?l Map.empty) initial =
      (FromCache ?l, getLocations_resolved 1700000000000 ?l Map.empty, initial)"
    by blast
  with l have d: "getLocations 1700000900000 1700000900000 ProbeThrows
      (getLocations_resolved 1700000000000 ?l Map.empty) initial =
      (FromCache ?l, [''/v0/locations'' \<mapsto> (?l, 1700000000000, 900000)], initial)"
    by simp
  from a b d show ?thesis by blast
qed

subsection \<open>503 responses as data\<close>

text \<open>
  Claim C7 as stated fails: what \<open>executeRequest\<close> returns for an HTTP 503 response is
  the body the server sent, whatever its shape. For a 503 response with the body
  \<^verbatim>\<open>{"message": "down for maintenance"}\<close> the caller receives that object, which has
  no \<^verbatim>\<open>statusCode\<close>, \<^verbatim>\<open>is503Error\<close> or \<^verbatim>\<open>error\<close>.
\<close>

theorem executeRequest_503_body_counterexample:
  "fst (executeRequest (\<lambda>e. False) (\<lambda>e. False)
     (Responds \<lparr> status = 503, statusText = ''Service Unavailable'', redirected = False,
                 r_url = ''https://localhost:3000/v0/services'',
                 r_body = Some (JObj [(''message'', JStr ''down for maintenance'')]) \<rparr>) initial) =
     Resolves (JObj [(''message'', JStr ''down for maintenance'')]) \<and>
   getProp (JObj [(''message'', JStr ''down for maintenance'')]) ''statusCode'' = JUndefined \<and>
   getProp (JObj [(''message'', JStr ''down for maintenance'')]) ''is503Error'' = JUndefined \<and>
   getProp (JObj [(''message'', JStr ''down for maintenance'')]) ''error'' = JUndefined"
  by code_simp

text \<open>
  Claim C7, amended. For an HTTP 503 response whose body is JSON, \<open>executeRequest\<close> sets
  global 503 status and resolves with the parsed body as it is. A redirect (a response marked
  redirected, or status 301, 302, 307 or 308), a CORS-redirect \<^verbatim>\<open>TypeError\<close> and a
  \<^verbatim>\<open>TypeError\<close> "Failed to fetch" are turned by \<open>tryFetch\<close> into a 503 response
  whose body is a 503-shaped object, so the caller receives that object and global 503 status
  is set. A 503 response whose body is not JSON, and every response with another status
  outside 2xx, goes to the \<^verbatim>\<open>catch\<close> block with the error thrown (global 503 status
  already set in the former case). There, for an error that the helper
  \<^verbatim>\<open>isConnectionError\<close> does not recognise, the call rejects with that error and
  leaves the state as it is, unless the helper \<^verbatim>\<open>is503Error\<close> recognises it, in
  which case a 503-shaped object built from the error's message is returned and global 503
  status is set. The message of the error thrown for a status other than 503 is built by
  \<open>handleErrorResponse\<close>: from the status and the status text when the body is not
  JSON, and from the body's \<^verbatim>\<open>message\<close>, when that is truthy and can be shown as a
  string, with a prefix chosen by the status.
\<close>

theorem executeRequest_503_as_data:
  "(status r \<noteq> 503 \<and> r_body r = None \<longrightarrow>
      handleErrorResponse r = ''HTTP '' @ showInt (status r) @ '': '' @ statusText r) \<and>
   (\<forall>kvs v shown. status r \<noteq> 503 \<and> r_body r = Some (JObj kvs) \<and>
        map_of kvs ''message'' = Some v \<and> truthy v \<and> jsToString v = Some shown \<longrightarrow>
      handleErrorResponse r =
        (if status r = 403 then ''Authentication required: '' @ shown
         else if status r = 429 then ''Rate limited: '' @ shown
         else case jsIncludes v ''Too many requests'' of
                None \<Rightarrow> ''HTTP '' @ showInt (status r) @ '': '' @ statusText r
              | Some True \<Rightarrow> ''Rate limited: '' @ shown
              | Some False \<Rightarrow> ''HTTP '' @ showInt (status r) @ '': '' @ shown)) \<and>
   (status r = 503 \<and> \<not> redirected r \<longrightarrow>
      (\<forall>d. r_body r = Some d \<longrightarrow>
         executeRequest c f (Responds r) s = (Resolves d, setGlobal503Status True s)) \<and>
      (r_body r = None \<longrightarrow>
         executeRequest c f (Responds r) s =
           executeRequest_catch c f syntaxError (setGlobal503Status True s))) \<and>
   (redirected r \<or> status r \<in> {301, 302, 307, 308} \<longrightarrow>
      executeRequest c f (Responds r) s =
        (Resolves (JObj [(''error'', JBool True), (''statusCode'', JNum 503),
           (''message'', JStr ''Service Unavailable: API endpoint redirected (backend misconfiguration)''),
           (''is503Error'', JBool True), (''isRedirectError'', JBool True),
           (''redirectedTo'', JStr (r_url r))]),
         setGlobal503Status True s)) \<and>
   (errClass e = TypeError \<and>
    (str_includes (message e) ''Redirect is not allowed'' \<or> str_includes (message e) ''CORS policy'') \<longrightarrow>
      executeRequest c f (FetchThrows e) s =
        (Resolves (JObj [(''error'', JBool True), (''statusCode'', JNum 503),
           (''message'', JStr ''Service Unavailable: CORS redirect error (backend misconfiguration)''),
           (''is503Error'', JBool True), (''isRedirectError'', JBool True),
           (''isCorsError'', JBool True)]),
         setGlobal503Status True s)) \<and>
   (errClass e = TypeError \<and> str_includes (message e) ''Failed to fetch'' \<longrightarrow>
      (\<exists>d. executeRequest c f (FetchThrows e) s = (Resolves d, setGlobal503Status True s) \<and>
           getProp d ''error'' = JBool True \<and> getProp d ''statusCode'' = JNum 503 \<and>
           getProp d ''is503Error'' = JBool True)) \<and>
   (\<not> redirected r \<and> status r \<notin> {301, 302, 307, 308} \<and> \<not> ok r \<and> status r \<noteq> 503 \<longrightarrow>
      executeRequest c f (Responds r) s =
        executeRequest_catch c f (newError (handleErrorResponse r)) s) \<and>
   (\<not> c x \<and> \<not> f x \<longrightarrow> executeRequest_catch c f x s = (Rejects x, s)) \<and>
   (\<not> c x \<and> f x \<longrightarrow>
      executeRequest_catch c f x s =
        (Resolves (JObj [(''error'', JBool True), (''statusCode'', JNum 503),
           (''message'', JStr (message x)), (''is503Error'', JBool True),
           (''isConnectionError'', JBool (isConnectionError_p x))]),
         setGlobal503Status True s)) \<and>
   global503Status (setGlobal503Status True s)"
proof -
  have msg: "\<forall>kvs v shown. status r \<noteq> 503 \<and> r_body r = Some (JObj kvs) \<and>
        map_of kvs ''message'' = Some v \<and> truthy v \<and> jsToString v = Some shown \<longrightarrow>
      handleErrorResponse r =
        (if status r = 403 then ''Authentication required: '' @ shown
         else if status r = 429 then ''Rate limited: '' @ shown
         else case jsIncludes v ''Too many requests'' of
                None \<Rightarrow> ''HTTP '' @ showInt (status r) @ '': '' @ statusText r
              | Some True \<Rightarrow> ''Rate limited: '' @ shown
              | Some False \<Rightarrow> ''HTTP '' @ showInt (status r) @ '': '' @ shown)"
    by (simp add: handleErrorResponse_message)
  have nojson: "status r \<noteq> 503 \<and> r_body r = None \<longrightarrow>
      handleErrorResponse r = ''HTTP '' @ showInt (status r) @ '': '' @ statusText r"
    by (simp add: handleErrorResponse_no_json)
  have main: "(status r = 503 \<and> \<not> redirected r \<longrightarrow>
      (\<forall>d. r_body r = Some d \<longrightarrow>
         executeRequest c f (Responds r) s = (Resolves d, setGlobal503Status True s)) \<and>
      (r_body r = None \<longrightarrow>
         executeRequest c f (Responds r) s =
           executeRequest_catch c f syntaxError (setGlobal503Status True s))) \<and>
   (redirected r \<or> status r \<in> {301, 302, 307, 308} \<longrightarrow>
      executeRequest c f (Responds r) s =
        (Resolves (JObj [(''error'', JBool True), (''statusCode'', JNum 503),
           (''message'', JStr ''Service Unavailable: API endpoint redirected (backend misconfiguration)''),
           (''is503Error'', JBool True), (''isRedirectError'', JBool True),
           (''redirectedTo'', JStr (r_url r))]),
         setGlobal503Status True s)) \<and>
   (errClass e = TypeError \<and>
    (str_includes (message e) ''Redirect is not allowed'' \<or> str_includes (message e) ''CORS policy'') \<longrightarrow>
      executeRequest c f (FetchThrows e) s =
        (Resolves (JObj [(''error'', JBool True), (''statusCode'', JNum 503),
           (''message'', JStr ''Service Unavailable: CORS redirect error (backend misconfiguration)''),
           (''is503Error'', JBool True), (''isRedirectError'', JBool True),
           (''isCorsError'', JBool True)]),
         setGlobal503Status True s)) \<and>
   (errClass e = TypeError \<and> str_includes (message e) ''Failed to fetch'' \<longrightarrow>
      (\<exists>d. executeRequest c f (FetchThrows e) s = (Resolves d, setGlobal503Status True s) \<and>
           getProp d ''error'' = JBool True \<and> getProp d ''statusCode'' = JNum 503 \<and>
           getProp d ''is503Error'' = JBool True)) \<and>
   (\<not> redirected r \<and> status r \<notin> {301, 302, 307, 308} \<and> \<not> ok r \<and> status r \<noteq> 503 \<longrightarrow>
      executeRequest c f (Responds r) s =
        executeRequest_catch c f (newError (handleErrorResponse r)) s) \<and>
   (\<not> c x \<and> \<not> f x \<longrightarrow> executeRequest_catch c f x s = (Rejects x, s)) \<and>
   (\<not> c x \<and> f x \<longrightarrow>
      executeRequest_catch c f x s =
        (Resolves (JObj [(''error'', JBool True), (''statusCode'', JNum 503),
           (''message'', JStr (message x)), (''is503Error'', JBool True),
           (''isConnectionError'', JBool (isConnectionError_p x))]),
         setGlobal503Status True s)) \<and>
   global503Status (setGlobal503Status True s)"
    by (auto simp add: executeRequest_def executeRequest_catch_def tryFetch_def mockResponse_def
          ok_def setGlobal503Status_def)
  show ?thesis
    by (rule conjI [OF nojson conjI [OF msg main]])
qed

text \<open>
  With helpers that recognise nothing: a 503 response with a JSON body resolves with that
  body and sets global 503 status, a 302 resolves with the redirect payload, a 500 without a
  JSON body rejects with the status text, and a 403 whose body has the number 42 as its
  message rejects with that number in the message.
\<close>

theorem executeRequest_503_as_data_witness:
  "executeRequest (\<lambda>e. False) (\<lambda>e. False)
     (Responds \<lparr> status = 503, statusText = ''Service Unavailable'', redirected = False,
                 r_url = ''https://localhost:3000/v0/health'',
                 r_body = Some (JObj [(''error'', JBool True), (''statusCode'', JNum 503),
                                      (''message'', JStr ''down'')]) \<rparr>) initial =
     (Resolves (JObj [(''error'', JBool True), (''statusCode'', JNum 503), (''message'', JStr ''down'')]),
      setGlobal503Status True initial) \<and>
   fst (executeRequest (\<lambda>e. False) (\<lambda>e. False)
     (Responds \<lparr> status = 302, statusText = ''Found'', redirected = False,
                 r_url = ''https://localhost:3000/login'', r_body = None \<rparr>) initial) =
     Resolves (JObj [(''error'', JBool True), (''statusCode'', JNum 503),
           (''message'', JStr ''Service Unavailable: API endpoint redirected (backend misconfiguration)''),
           (''is503Error'', JBool True), (''isRedirectError'', JBool True),
           (''redirectedTo'', JStr ''https://localhost:3000/login'')]) \<and>
   fst (executeRequest (\<lambda>e. False) (\<lambda>e. False)
     (Responds \<lparr> status = 500, statusText = ''Internal Server Error'', redirected = False,
                 r_url = ''https://localhost:3000/v0/nav'', r_body = None \<rparr>) initial) =
     Rejects (newError ''HTTP 500: Internal Server Error'') \<and>
   fst (executeRequest (\<lambda>e. False) (\<lambda>e. False)
     (Responds \<lparr> status = 403, statusText = ''Forbidden'', redirected = False,
                 r_url = ''https://localhost:3000/v0/auth/status'',
                 r_body = Some (JObj [(''message'', JNum 42)]) \<rparr>) initial) =
     Rejects (newError ''Authentication required: 42'')"
proof -
  let ?r503 = "\<lparr> status = 503, statusText = ''Service Unavailable'', redirected = False,
                 r_url = ''https://localhost:3000/v0/health'',
                 r_body = Some (JObj [(''error'', JBool True), (''statusCode'', JNum 503),
                                      (''message'', JStr ''down'')]) \<rparr>"
  let ?r302 = "\<lparr> status = 302, statusText = ''Found'', redirected = False,
                 r_url = ''https://localhost:3000/login'', r_body = None \<rparr>"
  let ?r500 = "\<lparr> status = 500, statusText = ''Internal Server Error'', redirected = False,
                 r_url = ''https://localhost:3000/v0/nav'', r_body = None \<rparr>"
  let ?r403 = "\<lparr> status = 403, statusText = ''Forbidden'', redirected = False,
                 r_url = ''https://localhost:3000/v0/auth/status'',
                 r_body = Some (JObj [(''message'', JNum 42)]) \<rparr>"
  let ?no = "\<lambda>e::jserror. False"
  have h503: "status ?r503 = 503 \<and> \<not> redirected ?r503"
    and b503: "r_body ?r503 = Some (JObj [(''error'', JBool True), (''statusCode'', JNum 503),
                                      (''message'', JStr ''down'')])"
    by simp_all
  from executeRequest_503_as_data [where r = ?r503 and c = ?no and f = ?no and s = initial]
    h503 b503
  have a: "executeRequest ?no ?no (Responds ?r503) initial =
      (Resolves (JObj [(''error'', JBool True), (''statusCode'', JNum 503), (''message'', JStr ''down'')]),
       setGlobal503Status True initial)"
    by blast
  have h302: "redirected ?r302 \<or> status ?r302 \<in> {301, 302, 307, 308}"
    by simp
  from executeRequest_503_as_data [where r = ?r302 and c = ?no and f = ?no and s = initial] h302
  have "executeRequest ?no ?no (Responds ?r302) initial =
      (Resolves (JObj [(''error'', JBool True), (''statusCode'', JNum 503),
           (''message'', JStr ''Service Unavailable: API endpoint redirected (backend misconfiguration)''),
           (''is503Error'', JBool True), (''isRedirectError'', JBool True),
           (''redirectedTo'', JStr (r_url ?r302))]),
       setGlobal503Status True initial)"
    by blast
  then have b: "fst (executeRequest ?no ?no (Responds ?r302) initial) =
      Resolves (JObj [(''error'', JBool True), (''statusCode'', JNum 503),
           (''message'', JStr ''Service Unavailable: API endpoint redirected (backend misconfiguration)''),
           (''is503Error'', JBool True), (''isRedirectError'', JBool True),
           (''redirectedTo'', JStr ''https://localhost:3000/login'')])"
    by simp
  have h500: "\<not> redirected ?r500 \<and> status ?r500 \<notin> {301, 302, 307, 308} \<and> \<not> ok ?r500 \<and>
      status ?r500 \<noteq> 503"
    by (simp add: ok_def)
  have m500: "handleErrorResponse ?r500 = ''HTTP 500: Internal Server Error''"
    by code_simp
  have k500: "\<not> ?no (newError (handleErrorResponse ?r500)) \<and>
      \<not> ?no (newError (handleErrorResponse ?r500))"
    by simp
  note T = executeRequest_503_as_data [where r = ?r500 and c = ?no and f = ?no and s = initial
      and x = "newError (handleErrorResponse ?r500)"]
  from T h500 have "executeRequest ?no ?no (Responds ?r500) initial =
      executeRequest_catch ?no ?no (newError (handleErrorResponse ?r500)) initial"
    by blast
  moreover from T k500 have "executeRequest_catch ?no ?no (newError (handleErrorResponse ?r500)) initial =
      (Rejects (newError (handleErrorResponse ?r500)), initial)"
    by blast
  ultimately have c: "fst (executeRequest ?no ?no (Responds ?r500) initial) =
      Rejects (newError ''HTTP 500: Internal Server Error'')"
    by (simp add: m500)
  have h403: "\<not> redirected ?r403 \<and> status ?r403 \<notin> {301, 302, 307, 308} \<and> \<not> ok ?r403 \<and>
      status ?r403 \<noteq> 503"
    by (simp add: ok_def)
  have m403: "handleErrorResponse ?r403 = ''Authentication required: 42''"
    by code_simp
  have k403: "\<not> ?no (newError (handleErrorResponse ?r403)) \<and>
      \<not> ?no (newError (handleErrorResponse ?r403))"
    by simp
  note V = executeRequest_503_as_data [where r = ?r403 and c = ?no and f = ?no and s = initial
      and x = "newError (handleErrorResponse ?r403)"]
  from V h403 have "executeRequest ?no ?no (Responds ?r403) initial =
      executeRequest_catch ?no ?no (newError (handleErrorResponse ?r403)) initial"
    by blast
  moreover from V k403 have "executeRequest_catch ?no ?no (newError (handleErrorResponse ?r403)) initial =
      (Rejects (newError (handleErrorResponse ?r403)), initial)"
    by blast
  ultimately have d: "fst (executeRequest ?no ?no (Responds ?r403) initial) =
      Rejects (newError ''Authentication required: 42'')"
    by (simp add: m403)
  from a b c d show ?thesis by blast
qed

end
